theory Spec2Isabelle
  imports Main
begin

section \<open>Library functions used by \<open>cmd/skopeo/sync.go\<close>\<close>

text \<open>
  The sync command calls a handful of pure functions of the Go standard library on
  strings and slash-separated paths. They are written out here after the library's
  documented behaviour, since the claims about destination suffixes and about the
  regular-expression filter depend on what they compute. Go strings are byte
  sequences, as \<^typ>\<open>string\<close> is.
\<close>

subsection \<open>Package \<open>strings\<close>\<close>

text \<open>\<open>strings.HasPrefix(s, prefix)\<close>: \<open>len(s) >= len(prefix) && s[:len(prefix)] == prefix\<close>.\<close>

definition strings_HasPrefix :: "string \<Rightarrow> string \<Rightarrow> bool" where
  "strings_HasPrefix s pre = (length pre \<le> length s \<and> take (length pre) s = pre)"

text \<open>\<open>strings.TrimPrefix(s, prefix)\<close>: \<open>s\<close> without the leading \<open>prefix\<close>, or \<open>s\<close> itself.\<close>

definition strings_TrimPrefix :: "string \<Rightarrow> string \<Rightarrow> string" where
  "strings_TrimPrefix s pre = (if strings_HasPrefix s pre then drop (length pre) s else s)"

text \<open>
  \<open>strings.Split(s, sep)\<close> for a one-byte separator: the pieces between all
  occurrences of the separator; a string with \<open>n\<close> separators has \<open>n + 1\<close> pieces.
\<close>

fun strings_Split :: "string \<Rightarrow> char \<Rightarrow> string list" where
  "strings_Split [] sep = [[]]"
| "strings_Split (c # cs) sep =
     (if c = sep then [] # strings_Split cs sep
      else (case strings_Split cs sep of
              piece # pieces \<Rightarrow> (c # piece) # pieces
            | [] \<Rightarrow> [[c]]))"

text \<open>\<open>strings.Join(elems, "/")\<close>.\<close>

fun join_slash :: "string list \<Rightarrow> string" where
  "join_slash [] = []"
| "join_slash [e] = e"
| "join_slash (e # es) = e @ ''/'' @ join_slash es"

subsection \<open>Package \<open>path\<close>\<close>

text \<open>
  \<open>path.Base(p)\<close>: the empty path gives \<open>"."\<close>; trailing slashes are stripped;
  what follows the last slash is kept; a path of slashes only gives \<open>"/"\<close>.
\<close>

definition stripTrailingSlashes :: "string \<Rightarrow> string" where
  "stripTrailingSlashes p = rev (dropWhile (\<lambda>c. c = CHR ''/'') (rev p))"

definition afterLastSlash :: "string \<Rightarrow> string" where
  "afterLastSlash p = rev (takeWhile (\<lambda>c. c \<noteq> CHR ''/'') (rev p))"

definition path_Base :: "string \<Rightarrow> string" where
  "path_Base p =
     (if p = [] then ''.''
      else let q = afterLastSlash (stripTrailingSlashes p)
           in if q = [] then ''/'' else q)"

text \<open>
  \<open>path.Clean(p)\<close>, element by element: empty elements and \<open>.\<close> are dropped, \<open>..\<close>
  removes the element before it when there is one that is not itself \<open>..\<close>, is
  dropped at the root of a rooted path and is kept otherwise. \<open>cleanElems\<close> holds the
  elements kept so far, last one first.
\<close>

fun cleanElems :: "bool \<Rightarrow> string list \<Rightarrow> string list \<Rightarrow> string list" where
  "cleanElems rooted out [] = out"
| "cleanElems rooted out (e # es) =
     (if e = [] \<or> e = ''.'' then cleanElems rooted out es
      else if e = ''..'' then
        (case out of
           o1 # rest \<Rightarrow>
             if o1 = ''..'' then cleanElems rooted (e # out) es
             else cleanElems rooted rest es
         | [] \<Rightarrow> if rooted then cleanElems rooted out es else cleanElems rooted [e] es)
      else cleanElems rooted (e # out) es)"

definition path_Clean :: "string \<Rightarrow> string" where
  "path_Clean p =
     (if p = [] then ''.''
      else let rooted = (hd p = CHR ''/'');
               body = join_slash (rev (cleanElems rooted [] (strings_Split p (CHR ''/''))))
           in if rooted then CHR ''/'' # body
              else if body = [] then ''.'' else body)"

text \<open>\<open>path.Join(elems...)\<close>: the non-empty elements joined by slashes, then cleaned.\<close>

definition path_Join :: "string list \<Rightarrow> string" where
  "path_Join elems =
     (let es = filter (\<lambda>e. e \<noteq> []) elems
      in if es = [] then [] else path_Clean (join_slash es))"

section \<open>Data model\<close>

subsection \<open>The types of \<open>containers/image\<close> that the command reads and writes\<close>

text \<open>\<open>types.OptionalBool\<close>; its zero value is \<open>OptionalBoolUndefined\<close>.\<close>

datatype OptionalBool = OptionalBoolUndefined | OptionalBoolTrue | OptionalBoolFalse

text \<open>\<open>types.NewOptionalBool(b)\<close>.\<close>

definition NewOptionalBool :: "bool \<Rightarrow> OptionalBool" where
  "NewOptionalBool b = (if b then OptionalBoolTrue else OptionalBoolFalse)"

record DockerAuthConfig =
  Username :: string
  Password :: string

text \<open>
  \<open>types.SystemContext\<close>: the five fields that \<open>sync.go\<close> assigns and, for the many
  fields it never writes, three of them (\<open>AuthFilePath\<close>, \<open>RegistriesDirPath\<close> and
  \<open>DockerRegistryUserAgent\<close>), so that a copy of a context can be told from a
  context made anew. The command holds contexts by pointer
  (\<open>*types.SystemContext\<close>), so a context lives in a store and is named by its
  address.
\<close>

record SystemContext =
  AuthFilePath :: string
  RegistriesDirPath :: string
  DockerRegistryUserAgent :: string
  DockerCertPath :: string
  DockerDaemonCertPath :: string
  DockerDaemonInsecureSkipTLSVerify :: bool
  DockerInsecureSkipTLSVerify :: OptionalBool
  DockerAuthConfig :: "DockerAuthConfig option"

type_synonym addr = nat

text \<open>
  \<open>types.ImageReference\<close>. The command only ever holds references made by the
  \<open>docker\<close> and the \<open>dir\<close> transport, and reads one string of each: of a docker
  reference \<open>DockerReference().String()\<close>, of a directory reference
  \<open>StringWithinTransport()\<close>, the path it was parsed from.
\<close>

datatype ImageReference = DockerReference string | DirectoryReference string

text \<open>\<open>docker.Transport.Name()\<close> and \<open>directory.Transport.Name()\<close>.\<close>

definition docker_Transport_Name :: string where
  "docker_Transport_Name = ''docker''"

definition directory_Transport_Name :: string where
  "directory_Transport_Name = ''dir''"

text \<open>The error of \<open>docker.GetRepositoryTags\<close>, by its dynamic type.\<close>

datatype listError = ErrUnauthorizedForCredentials string | OtherListError string

text \<open>
  The errors the command returns, one constructor per message of the source;
  \<open>errors.Wrap\<close> keeps its cause. \<open>LibraryError\<close> is an error of a library call
  passed on as it is.
\<close>

datatype error =
    LibraryError string
  | RefusingToOverwrite string
  | DestinationDirectoryUnusable error
  | ErrorCreatingDirectory string error
  | NotAValidDestinationTransport string
  | CannotObtainReference string string error
  | ErrorDeterminingTags string error
  | ErrorWalkingPath string error
  | NoImagesToSync string
  | InvalidSourceDirectory error
  | FailedToUnmarshal string error
  | FailedToRetrieveImages string error
  | ExactlyTwoArguments
  | ErrorLoadingTrustPolicy error
  | SourceTransportMissing
  | NotAValidSourceTransport string
  | DestinationTransportMissing
  | DirToDirNotImplemented
  | ErrorCopyingTag ImageReference error

text \<open>A run time panic of Go: it is not an error value, and no caller here recovers it.\<close>

datatype panic = NilPointerDereference | IndexOutOfRange

datatype 'a outcome = Returns 'a | Panics panic

subsection \<open>The types declared in \<open>sync.go\<close>\<close>

record syncOptions =
  removeSignatures :: bool
  signByFingerprint :: string
  source :: string
  destination :: string
  scoped :: bool

record repoDescriptor =
  DirBasePath :: string
  TaggedImages :: "ImageReference list"
  Context :: addr

record tlsVerifyConfig =
  skip :: OptionalBool

text \<open>
  The values of the \<open>Images\<close> map are \<open>interface{}\<close>: what the YAML decoder made
  of the document. \<open>tagValue\<close> is an element of a decoded sequence, told apart as the
  inner type switch does; \<open>tagsValue\<close> is a whole value, told apart as the outer
  one does. A \<open>float64\<close> is kept abstract.
\<close>

typedecl float64

datatype tagValue = StringValue string | IntValue int | Float64Value float64 | OtherValue

datatype tagsValue =
    NilTags
  | StringSlice "string list"
  | InterfaceSlice "tagValue list"
  | StringTags string
  | OtherTags

text \<open>
  A Go map is walked in an unspecified order: the maps of the configuration are
  association lists, in the order in which the run walks them.
\<close>

record registrySyncConfig =
  Images :: "(string \<times> tagsValue) list"
  Credentials :: DockerAuthConfig
  TLSVerify :: tlsVerifyConfig
  CertDir :: string

type_synonym sourceConfig = "(string \<times> registrySyncConfig) list"

subsection \<open>Logging and the state of a run\<close>

datatype logLevel = DebugLevel | InfoLevel | WarnLevel | ErrorLevel

type_synonym logEntry = "logLevel \<times> string"

text \<open>
  The state a run threads through: the outside world (file system and registries),
  the store of system contexts, and the log written so far.
\<close>

record 'w state =
  world :: 'w
  heap :: "SystemContext list"
  logs :: "logEntry list"

definition logf :: "logLevel \<Rightarrow> string \<Rightarrow> 'w state \<Rightarrow> 'w state" where
  "logf lvl msg s = s\<lparr>logs := logs s @ [(lvl, msg)]\<rparr>"

text \<open>
  \<open>filepath.Walk\<close> sees the file tree below its root through \<open>os.Lstat\<close> and a
  sorted directory listing: a node is a file, a directory with its entries in
  lexical order, a directory that cannot be listed, or a name that cannot be
  examined.
\<close>

datatype fileTree =
    File
  | Dir "(string \<times> fileTree) list"
  | UnreadableDir string
  | LstatError string

datatype statResult = StatOk | StatNotExist | StatError string

text \<open>\<open>copy.Options\<close>, as \<open>run\<close> fills it.\<close>

record copyOptions =
  RemoveSignatures :: bool
  SignBy :: string
  SourceCtx :: SystemContext
  DestinationCtx :: SystemContext

text \<open>
  The calls that leave \<open>sync.go\<close>: into \<open>containers/image\<close>, the operating system,
  the YAML decoder, the regular expression library and the rest of the \<open>skopeo\<close>
  command. They are parameters of the model. A library error is its message; a
  compiled regular expression is the set of byte strings it matches.
\<close>

record 'w externals =
  docker_ParseReference :: "string \<Rightarrow> string + ImageReference"
  directory_ParseReference :: "string \<Rightarrow> string + ImageReference"
  docker_GetRepositoryTags :: "'w \<Rightarrow> SystemContext \<Rightarrow> ImageReference \<Rightarrow> listError + string list"
  docker_ReferenceName :: "ImageReference \<Rightarrow> string"
  reference_ParseNormalizedNamed :: "string \<Rightarrow> string + string"
  reference_IsNameOnly :: "string \<Rightarrow> bool"
  regexp_Compile :: "string \<Rightarrow> string + (string \<Rightarrow> bool)"
  fmt_float64 :: "float64 \<Rightarrow> string"
  os_Stat :: "'w \<Rightarrow> string \<Rightarrow> statResult"
  os_MkdirAll :: "'w \<Rightarrow> string \<Rightarrow> string option \<times> 'w"
  filepath_tree :: "'w \<Rightarrow> string \<Rightarrow> fileTree"
  ioutil_ReadFile :: "'w \<Rightarrow> string \<Rightarrow> string + string"
  yaml_Unmarshal :: "string \<Rightarrow> string + sourceConfig"
  getPolicyContext :: "string option"
  srcImage_newSystemContext :: "string + SystemContext"
  destImage_newSystemContext :: "string + SystemContext"
  copy_Image :: "'w \<Rightarrow> ImageReference \<Rightarrow> ImageReference \<Rightarrow> copyOptions \<Rightarrow> string option \<times> 'w"

section \<open>The functions of \<open>sync.go\<close>\<close>

subsection \<open>\<open>destinationReference\<close>\<close>

text \<open>
  The \<open>dir\<close> case examines the destination with \<open>os.Stat\<close>: when that succeeds the
  path exists and the function refuses; any error but "does not exist" is passed
  on; otherwise \<open>os.MkdirAll\<close> creates the directory, and only then is the
  reference parsed.
\<close>

definition destinationReference ::
  "'w externals \<Rightarrow> string \<Rightarrow> string \<Rightarrow> 'w state \<Rightarrow> (error + ImageReference) \<times> 'w state" where
  "destinationReference X dest transport s =
     (if transport = docker_Transport_Name then
        (let dest' = ''//'' @ dest;
             s1 = logf DebugLevel ''Destination for transport'' s
         in case docker_ParseReference X dest' of
              Inl e \<Rightarrow> (Inl (CannotObtainReference docker_Transport_Name dest' (LibraryError e)), s1)
            | Inr r \<Rightarrow> (Inr r, s1))
      else if transport = directory_Transport_Name then
        (case os_Stat X (world s) dest of
           StatOk \<Rightarrow> (Inl (RefusingToOverwrite dest), s)
         | StatError e \<Rightarrow> (Inl (DestinationDirectoryUnusable (LibraryError e)), s)
         | StatNotExist \<Rightarrow>
             (case os_MkdirAll X (world s) dest of
                (Some e, w') \<Rightarrow>
                  (Inl (ErrorCreatingDirectory dest (LibraryError e)), s\<lparr>world := w'\<rparr>)
              | (None, w') \<Rightarrow>
                  (let s1 = logf DebugLevel ''Destination for transport'' (s\<lparr>world := w'\<rparr>)
                   in case directory_ParseReference X dest of
                        Inl e \<Rightarrow>
                          (Inl (CannotObtainReference directory_Transport_Name dest (LibraryError e)), s1)
                      | Inr r \<Rightarrow> (Inr r, s1))))
      else (Inl (NotAValidDestinationTransport transport), s))"

subsection \<open>The destination suffix computed by \<open>run\<close>\<close>

text \<open>
  Lines 573 to 585: the switch on the transport of the source reference, with the
  base path of the descriptor the reference belongs to.
\<close>

definition destSuffixOf :: "ImageReference \<Rightarrow> string \<Rightarrow> string" where
  "destSuffixOf ref dirBasePath =
     (case ref of
        DockerReference str \<Rightarrow> str
      | DirectoryReference p \<Rightarrow>
          (let destSuffix = strings_TrimPrefix p dirBasePath
           in if destSuffix = [] then path_Base dirBasePath else destSuffix))"

text \<open>Lines 587 to 589: without \<open>--scoped\<close> only the last element is kept.\<close>

definition unscopedSuffix :: "bool \<Rightarrow> string \<Rightarrow> string" where
  "unscopedSuffix scoped' destSuffix = (if \<not> scoped' then path_Base destSuffix else destSuffix)"

subsection \<open>\<open>tlsVerifyConfig.UnmarshalYAML\<close>\<close>

text \<open>
  The decoder hands the method a function that decodes the node of the key into
  a \<open>bool\<close>; its outcome is the first argument here.
\<close>

definition UnmarshalYAML :: "string + bool \<Rightarrow> tlsVerifyConfig \<Rightarrow> string + tlsVerifyConfig" where
  "UnmarshalYAML unmarshal tls =
     (case unmarshal of
        Inl err \<Rightarrow> Inl err
      | Inr verify \<Rightarrow> Inr (tls\<lparr>skip := NewOptionalBool (\<not> verify)\<rparr>))"

text \<open>
  How \<open>yaml.Unmarshal\<close> fills the \<open>TLSVerify\<close> field of a registry entry: the field
  starts as the zero value of its type, and the method above runs only when the
  document has the \<open>tls-verify\<close> key.
\<close>

definition decodeTLSVerify :: "(string + bool) option \<Rightarrow> string + tlsVerifyConfig" where
  "decodeTLSVerify key =
     (case key of
        None \<Rightarrow> Inr \<lparr>skip = OptionalBoolUndefined\<rparr>
      | Some node \<Rightarrow> UnmarshalYAML node \<lparr>skip = OptionalBoolUndefined\<rparr>)"

subsection \<open>\<open>newSourceConfig\<close>\<close>

definition newSourceConfig :: "'w externals \<Rightarrow> string \<Rightarrow> 'w state \<Rightarrow> error + sourceConfig" where
  "newSourceConfig X yamlFile s =
     (case ioutil_ReadFile X (world s) yamlFile of
        Inl err \<Rightarrow> Inl (LibraryError err)
      | Inr src \<Rightarrow>
          (case yaml_Unmarshal X src of
             Inl err \<Rightarrow> Inl (FailedToUnmarshal yamlFile (LibraryError err))
           | Inr cfg \<Rightarrow> Inr cfg))"

subsection \<open>\<open>getImageTags\<close>\<close>

text \<open>
  \<open>docker.GetRepositoryTags\<close> returns no tags together with an error, so the tags
  returned beside an unauthorized error are the empty sequence.
\<close>

definition getImageTags ::
  "'w externals \<Rightarrow> addr \<Rightarrow> ImageReference \<Rightarrow> 'w state \<Rightarrow> (error + string list) \<times> 'w state" where
  "getImageTags X sysCtx imgRef s =
     (let name = docker_ReferenceName X imgRef;
          s1 = logf InfoLevel ''Getting tags'' s
      in case docker_GetRepositoryTags X (world s1) (heap s1 ! sysCtx) imgRef of
           Inr tags \<Rightarrow> (Inr tags, s1)
         | Inl (ErrUnauthorizedForCredentials m) \<Rightarrow>
             (Inr [], logf WarnLevel ''Registry disallows tag list retrieval'' s1)
         | Inl (OtherListError m) \<Rightarrow> (Inl (ErrorDeterminingTags name (LibraryError m)), s1))"

subsection \<open>\<open>isTagSpecified\<close>\<close>

definition isTagSpecified ::
  "'w externals \<Rightarrow> string \<Rightarrow> 'w state \<Rightarrow> (error + bool) \<times> 'w state" where
  "isTagSpecified X imageName s =
     (case reference_ParseNormalizedNamed X imageName of
        Inl err \<Rightarrow> (Inl (LibraryError err), s)
      | Inr normNamed \<Rightarrow>
          (Inr (\<not> reference_IsNameOnly X normNamed), logf InfoLevel ''Tag presence check'' s))"

subsection \<open>\<open>imagesToCopyFromRepo\<close>\<close>

text \<open>The loop over the tags: the first tag whose reference does not parse ends it.\<close>

fun tagReferences :: "'w externals \<Rightarrow> string \<Rightarrow> string list \<Rightarrow> error + ImageReference list" where
  "tagReferences X repoName [] = Inr []"
| "tagReferences X repoName (tag # tags) =
     (let imageAndTag = repoName @ '':'' @ tag
      in case docker_ParseReference X imageAndTag of
           Inl err \<Rightarrow> Inl (CannotObtainReference docker_Transport_Name imageAndTag (LibraryError err))
         | Inr ref \<Rightarrow>
             (case tagReferences X repoName tags of
                Inl err \<Rightarrow> Inl err
              | Inr refs \<Rightarrow> Inr (ref # refs)))"

definition imagesToCopyFromRepo ::
  "'w externals \<Rightarrow> ImageReference \<Rightarrow> string \<Rightarrow> addr \<Rightarrow> 'w state
     \<Rightarrow> (error + ImageReference list) \<times> 'w state" where
  "imagesToCopyFromRepo X repoReference repoName sourceCtx s =
     (case getImageTags X sourceCtx repoReference s of
        (Inl err, s1) \<Rightarrow> (Inl err, s1)
      | (Inr tags, s1) \<Rightarrow> (tagReferences X repoName tags, s1))"

subsection \<open>\<open>imagesToCopyFromDir\<close>\<close>

text \<open>
  \<open>filepath.Dir(p)\<close> on a slash-separated path: what precedes the last element,
  cleaned. \<open>filepath.Join\<close> is \<open>path.Join\<close> there.
\<close>

definition filepath_Dir :: "string \<Rightarrow> string" where
  "filepath_Dir p = path_Clean (rev (dropWhile (\<lambda>c. c \<noteq> CHR ''/'') (rev p)))"

datatype walkStatus = WalkNil | SkipDir | WalkError error

text \<open>
  The function literal handed to \<open>filepath.Walk\<close>. Its \<open>info\<close> argument is reduced
  to what the literal reads: the error of the walk if there is one, else whether the
  node is a directory; \<open>info.Name()\<close> is the last element of the path. The references
  found so far are the variable the literal closes over.
\<close>

definition walkFn ::
  "'w externals \<Rightarrow> string \<Rightarrow> string + bool \<Rightarrow> ImageReference list
     \<Rightarrow> walkStatus \<times> ImageReference list" where
  "walkFn X p info sourceReferences =
     (case info of
        Inl err \<Rightarrow> (WalkError (LibraryError err), sourceReferences)
      | Inr isDir \<Rightarrow>
          if \<not> isDir \<and> path_Base p = ''manifest.json'' then
            (let dirname = filepath_Dir p
             in case directory_ParseReference X dirname of
                  Inl err \<Rightarrow>
                    (WalkError (CannotObtainReference directory_Transport_Name dirname
                       (LibraryError err)), sourceReferences)
                | Inr ref \<Rightarrow> (SkipDir, sourceReferences @ [ref]))
          else (WalkNil, sourceReferences))"

text \<open>
  \<open>filepath.Walk\<close>, after the standard library: the function is called on a node
  before its entries, and the entries are walked in lexical order. An error ends the
  walk. \<open>SkipDir\<close> returned for a file ends the walk of the directory that holds the
  file, so that its remaining entries are not visited, and the walk goes on with
  what follows that directory.
\<close>

fun isDirNode :: "fileTree \<Rightarrow> bool" where
  "isDirNode (Dir es) = True"
| "isDirNode (UnreadableDir e) = True"
| "isDirNode t = False"

fun lstatFailed :: "fileTree \<Rightarrow> bool" where
  "lstatFailed (LstatError e) = True"
| "lstatFailed t = False"

fun walk ::
  "'w externals \<Rightarrow> string \<Rightarrow> fileTree \<Rightarrow> ImageReference list \<Rightarrow> walkStatus \<times> ImageReference list"
and walkNames ::
  "'w externals \<Rightarrow> string \<Rightarrow> (string \<times> fileTree) list \<Rightarrow> ImageReference list
     \<Rightarrow> walkStatus \<times> ImageReference list" where
  "walk X p File refs = walkFn X p (Inr False) refs"
| "walk X p (LstatError e) refs = walkFn X p (Inl e) refs"
| "walk X p (UnreadableDir e) refs = walkFn X p (Inl e) refs"
| "walk X p (Dir entries) refs =
     (case walkFn X p (Inr True) refs of
        (WalkNil, refs1) \<Rightarrow> walkNames X p entries refs1
      | r \<Rightarrow> r)"
| "walkNames X p [] refs = (WalkNil, refs)"
| "walkNames X p ((name, node) # rest) refs =
     (case walk X (path_Join [p, name]) node refs of
        (WalkNil, refs1) \<Rightarrow> walkNames X p rest refs1
      | (SkipDir, refs1) \<Rightarrow>
          if isDirNode node \<or> lstatFailed node then walkNames X p rest refs1
          else (SkipDir, refs1)
      | r \<Rightarrow> r)"

definition filepath_Walk ::
  "'w externals \<Rightarrow> string \<Rightarrow> fileTree \<Rightarrow> ImageReference list \<Rightarrow> error option \<times> ImageReference list" where
  "filepath_Walk X root tree refs =
     (case walk X root tree refs of
        (WalkError err, refs1) \<Rightarrow> (Some err, refs1)
      | (st, refs1) \<Rightarrow> (None, refs1))"

definition imagesToCopyFromDir ::
  "'w externals \<Rightarrow> string \<Rightarrow> 'w state \<Rightarrow> error + ImageReference list" where
  "imagesToCopyFromDir X dirPath s =
     (case filepath_Walk X dirPath (filepath_tree X (world s) dirPath) [] of
        (Some err, sourceReferences) \<Rightarrow> Inl (ErrorWalkingPath dirPath err)
      | (None, sourceReferences) \<Rightarrow> Inr sourceReferences)"

subsection \<open>\<open>imagesToCopyFromRegistry\<close>\<close>

text \<open>\<open>fmt.Sprintf("%v", v)\<close> for the three element types the inner switch accepts.\<close>

fun decimal :: "nat \<Rightarrow> string" where
  "decimal n =
     (if n < 10 then [char_of (48 + n)]
      else decimal (n div 10) @ [char_of (48 + n mod 10)])"

definition fmt_int :: "int \<Rightarrow> string" where
  "fmt_int i = (if i < 0 then CHR ''-'' # decimal (nat (- i)) else decimal (nat i))"

fun fmt_v :: "'w externals \<Rightarrow> tagValue \<Rightarrow> string" where
  "fmt_v X (StringValue str) = str"
| "fmt_v X (IntValue i) = fmt_int i"
| "fmt_v X (Float64Value f) = fmt_float64 X f"
| "fmt_v X OtherValue = []"

text \<open>Lines 275 to 279: the assignments through \<open>serverCtx\<close>.\<close>

definition overrideContext :: "registrySyncConfig \<Rightarrow> SystemContext \<Rightarrow> SystemContext" where
  "overrideContext cfg c =
     c\<lparr>DockerCertPath := CertDir cfg,
       DockerDaemonCertPath := CertDir cfg,
       DockerDaemonInsecureSkipTLSVerify := (skip (TLSVerify cfg) = OptionalBoolTrue),
       DockerInsecureSkipTLSVerify := skip (TLSVerify cfg),
       DockerAuthConfig := Some (Credentials cfg)\<rparr>"

text \<open>
  Lines 287 to 299: the loop over a decoded sequence. An element that is no string,
  \<open>int\<close> or \<open>float64\<close> is logged and passed over.
\<close>

fun coerceTags :: "'w externals \<Rightarrow> tagValue list \<Rightarrow> 'w state \<Rightarrow> string list \<times> 'w state" where
  "coerceTags X [] s = ([], s)"
| "coerceTags X (OtherValue # tagIns) s =
     coerceTags X tagIns
       (logf ErrorLevel ''Elements can only be strings if they are of type array''
          (logf ErrorLevel ''Error processing repo, skipping'' s))"
| "coerceTags X (tagValue # tagIns) s =
     (case coerceTags X tagIns s of (tagList, s1) \<Rightarrow> (fmt_v X tagValue # tagList, s1))"

text \<open>Lines 285 to 305.\<close>

fun tagListOf :: "'w externals \<Rightarrow> tagsValue \<Rightarrow> 'w state \<Rightarrow> string list \<times> 'w state" where
  "tagListOf X (InterfaceSlice tagIns) s = coerceTags X tagIns s"
| "tagListOf X (StringSlice tags) s = (tags, s)"
| "tagListOf X tags s = ([], s)"

text \<open>
  Lines 307 to 319: the loop over the tag list. A tag whose reference does not parse
  is logged and passed over.
\<close>

fun listedReferences ::
  "'w externals \<Rightarrow> string \<Rightarrow> string list \<Rightarrow> 'w state \<Rightarrow> ImageReference list \<times> 'w state" where
  "listedReferences X repoName [] s = ([], s)"
| "listedReferences X repoName (tag # tagList) s =
     (case docker_ParseReference X (repoName @ '':'' @ tag) of
        Inl err \<Rightarrow>
          listedReferences X repoName tagList
            (logf ErrorLevel ''Error getting image reference''
               (logf ErrorLevel ''Error processing tag, skipping'' s))
      | Inr imageRef \<Rightarrow>
          (case listedReferences X repoName tagList s of
             (refs, s1) \<Rightarrow> (imageRef # refs, s1)))"

text \<open>
  Line 389: \<open>strings.Split(sReference.DockerReference().String(), ":")[1]\<close>. A
  reference of the \<open>dir\<close> transport has no docker reference, and a string without a
  colon has no piece of index 1.
\<close>

definition matchedPiece :: "ImageReference \<Rightarrow> string outcome" where
  "matchedPiece sReference =
     (case sReference of
        DirectoryReference p \<Rightarrow> Panics NilPointerDereference
      | DockerReference str \<Rightarrow>
          (case strings_Split str (CHR '':'') of
             p0 # p1 # ps \<Rightarrow> Returns p1
           | ps \<Rightarrow> Panics IndexOutOfRange))"

text \<open>
  Lines 387 to 392: the filter. \<open>tagReg\<close> is the pointer \<open>regexp.Compile\<close> returned,
  \<open>None\<close> for the nil pointer it returns with an error; \<open>Match\<close> on it reads
  through the pointer.
\<close>

fun filterReferences ::
  "(string \<Rightarrow> bool) option \<Rightarrow> ImageReference list \<Rightarrow> ImageReference list outcome" where
  "filterReferences tagReg [] = Returns []"
| "filterReferences tagReg (sReference # rest) =
     (case matchedPiece sReference of
        Panics pn \<Rightarrow> Panics pn
      | Returns piece \<Rightarrow>
          (case tagReg of
             None \<Rightarrow> Panics NilPointerDereference
           | Some re \<Rightarrow>
               (case filterReferences tagReg rest of
                  Panics pn \<Rightarrow> Panics pn
                | Returns refs \<Rightarrow> Returns (if re piece then sReference # refs else refs))))"

text \<open>
  Lines 327 to 345 and 363 to 381, which are the same: the reference of the
  repository is parsed and its tags are listed; either failure is logged and the
  image is passed over (\<open>None\<close>).
\<close>

definition queryRepo ::
  "'w externals \<Rightarrow> string \<Rightarrow> addr \<Rightarrow> 'w state \<Rightarrow> ImageReference list option \<times> 'w state" where
  "queryRepo X repoName serverCtx s =
     (let s1 = logf InfoLevel ''Querying registry for image tags'' s
      in case docker_ParseReference X repoName of
           Inl err \<Rightarrow>
             (None, logf ErrorLevel ''error'' (logf ErrorLevel ''Error processing repo, skipping'' s1))
         | Inr imageRef \<Rightarrow>
             (case imagesToCopyFromRepo X imageRef repoName serverCtx s1 of
                (Inl err, s2) \<Rightarrow>
                  (None, logf ErrorLevel ''error''
                     (logf ErrorLevel ''Error processing repo, skipping'' s2))
              | (Inr refs, s2) \<Rightarrow> (Some refs, s2)))"

text \<open>Lines 403 to 412: what ends an iteration that reached the end of the switch.\<close>

definition appendDescriptor ::
  "addr \<Rightarrow> ImageReference list \<Rightarrow> 'w state \<Rightarrow> repoDescriptor option \<times> 'w state" where
  "appendDescriptor serverCtx sourceReferences s =
     (if length sourceReferences = 0 then (None, logf WarnLevel ''No tags to sync found'' s)
      else (Some \<lparr>DirBasePath = [], TaggedImages = sourceReferences, Context = serverCtx\<rparr>, s))"

text \<open>
  One iteration of the loop over \<open>cfg.Images\<close>. \<open>serverCtx\<close> is the address of the
  function's own parameter \<open>sourceCtx\<close>, the same in every iteration. The result is
  the descriptor the iteration appends, if it appends one.
\<close>

definition registryImage ::
  "'w externals \<Rightarrow> string \<Rightarrow> registrySyncConfig \<Rightarrow> addr \<Rightarrow> string \<times> tagsValue \<Rightarrow> 'w state
     \<Rightarrow> repoDescriptor option outcome \<times> 'w state" where
  "registryImage X registryName cfg serverCtx entry s =
     (let imageName = fst entry;
          tags = snd entry;
          repoName = ''//'' @ path_Join [registryName, imageName];
          s0 = logf InfoLevel ''Processing repo'' s;
          s1 = s0\<lparr>heap := (heap s0)[serverCtx := overrideContext cfg (heap s0 ! serverCtx)]\<rparr>
      in case tags of
           StringTags pat \<Rightarrow>
             (let compiled = regexp_Compile X pat;
                  tagReg = (case compiled of Inl err \<Rightarrow> None | Inr re \<Rightarrow> Some re);
                  s2 = (case compiled of
                          Inl err \<Rightarrow>
                            logf ErrorLevel ''error''
                              (logf ErrorLevel ''Error processing repo, skipping'' s1)
                        | Inr re \<Rightarrow> s1)
              in case queryRepo X repoName serverCtx s2 of
                   (None, s3) \<Rightarrow> (Returns None, s3)
                 | (Some allSourceReferences, s3) \<Rightarrow>
                     (let s4 = logf InfoLevel ''Start filtering using the regular expression'' s3
                      in case filterReferences tagReg allSourceReferences of
                           Panics pn \<Rightarrow> (Panics pn, s4)
                         | Returns sourceReferences \<Rightarrow>
                             (case appendDescriptor serverCtx sourceReferences s4 of
                                (d, s5) \<Rightarrow> (Returns d, s5))))
         | OtherTags \<Rightarrow>
             (Returns None,
              logf ErrorLevel ''Tags's type only support []string or regular expression string''
                (logf ErrorLevel ''Error processing repo, skipping'' s1))
         | _ \<Rightarrow>
             (case tagListOf X tags s1 of
                (tagList, s2) \<Rightarrow>
                  (case listedReferences X repoName tagList s2 of
                     (sourceReferences, s3) \<Rightarrow>
                       if length tagList = 0 then
                         (case queryRepo X repoName serverCtx s3 of
                            (None, s4) \<Rightarrow> (Returns None, s4)
                          | (Some refs, s4) \<Rightarrow>
                              (case appendDescriptor serverCtx refs s4 of
                                 (d, s5) \<Rightarrow> (Returns d, s5)))
                       else
                         (case appendDescriptor serverCtx sourceReferences s3 of
                            (d, s4) \<Rightarrow> (Returns d, s4)))))"

text \<open>The loop over \<open>cfg.Images\<close>, with the descriptors appended so far.\<close>

fun registryImages ::
  "'w externals \<Rightarrow> string \<Rightarrow> registrySyncConfig \<Rightarrow> addr \<Rightarrow> (string \<times> tagsValue) list
     \<Rightarrow> repoDescriptor list \<Rightarrow> 'w state \<Rightarrow> repoDescriptor list outcome \<times> 'w state" where
  "registryImages X registryName cfg serverCtx [] repoDescList s = (Returns repoDescList, s)"
| "registryImages X registryName cfg serverCtx (entry # rest) repoDescList s =
     (case registryImage X registryName cfg serverCtx entry s of
        (Panics pn, s1) \<Rightarrow> (Panics pn, s1)
      | (Returns None, s1) \<Rightarrow> registryImages X registryName cfg serverCtx rest repoDescList s1
      | (Returns (Some d), s1) \<Rightarrow>
          registryImages X registryName cfg serverCtx rest (repoDescList @ [d]) s1)"

text \<open>
  The function takes \<open>sourceCtx\<close> by value: the call copies the caller's context
  into a variable of its own, whose address the descriptors keep. The copy is a
  fresh cell of the store. The error result of the function is always nil.
\<close>

definition imagesToCopyFromRegistry ::
  "'w externals \<Rightarrow> string \<Rightarrow> registrySyncConfig \<Rightarrow> SystemContext \<Rightarrow> 'w state
     \<Rightarrow> (error + repoDescriptor list) outcome \<times> 'w state" where
  "imagesToCopyFromRegistry X registryName cfg sourceCtx s =
     (let serverCtx = length (heap s);
          s0 = s\<lparr>heap := heap s @ [sourceCtx]\<rparr>
      in case registryImages X registryName cfg serverCtx (Images cfg) [] s0 of
           (Panics pn, s1) \<Rightarrow> (Panics pn, s1)
         | (Returns repoDescList, s1) \<Rightarrow> (Returns (Inr repoDescList), s1))"

subsection \<open>\<open>imagesToCopy\<close>\<close>

text \<open>
  The loop of the \<open>yaml\<close> case over the registries of the configuration. Each call
  of \<open>imagesToCopyFromRegistry\<close> is given \<open>*sourceCtx\<close>, the context at the address
  \<open>sourceCtx\<close> as it is at that moment.
\<close>

fun registries ::
  "'w externals \<Rightarrow> addr \<Rightarrow> sourceConfig \<Rightarrow> repoDescriptor list \<Rightarrow> 'w state
     \<Rightarrow> (error + repoDescriptor list) outcome \<times> 'w state" where
  "registries X sourceCtx [] descriptors s = (Returns (Inr descriptors), s)"
| "registries X sourceCtx ((registryName, registryConfig) # rest) descriptors s =
     (if length (Images registryConfig) = 0 then
        registries X sourceCtx rest descriptors
          (logf WarnLevel ''No images specified for registry'' s)
      else
        (case imagesToCopyFromRegistry X registryName registryConfig (heap s ! sourceCtx) s of
           (Panics pn, s1) \<Rightarrow> (Panics pn, s1)
         | (Returns (Inl err), s1) \<Rightarrow>
             (Returns (Inl (FailedToRetrieveImages registryName err)), s1)
         | (Returns (Inr descs), s1) \<Rightarrow>
             registries X sourceCtx rest (descriptors @ descs) s1))"

text \<open>
  The switch on the transport has three cases and no default: any other transport
  falls through to the final \<open>return descriptors, nil\<close> with no descriptor.
\<close>

definition imagesToCopy ::
  "'w externals \<Rightarrow> string \<Rightarrow> string \<Rightarrow> addr \<Rightarrow> 'w state
     \<Rightarrow> (error + repoDescriptor list) outcome \<times> 'w state" where
  "imagesToCopy X src transport sourceCtx s =
     (if transport = docker_Transport_Name then
        (let refName = ''//'' @ src
         in case docker_ParseReference X refName of
              Inl err \<Rightarrow>
                (Returns (Inl (CannotObtainReference docker_Transport_Name refName
                   (LibraryError err))), s)
            | Inr srcRef \<Rightarrow>
                (case isTagSpecified X src s of
                   (Inl err, s1) \<Rightarrow> (Returns (Inl err), s1)
                 | (Inr imageTagged, s1) \<Rightarrow>
                     if imageTagged then
                       (Returns (Inr [\<lparr>DirBasePath = [], TaggedImages = [srcRef],
                          Context = sourceCtx\<rparr>]), s1)
                     else
                       (case imagesToCopyFromRepo X srcRef (''//'' @ src) sourceCtx s1 of
                          (Inl err, s2) \<Rightarrow> (Returns (Inl err), s2)
                        | (Inr tagged, s2) \<Rightarrow>
                            if length tagged = 0 then (Returns (Inl (NoImagesToSync src)), s2)
                            else
                              (Returns (Inr [\<lparr>DirBasePath = [], TaggedImages = tagged,
                                 Context = sourceCtx\<rparr>]), s2))))
      else if transport = directory_Transport_Name then
        (case os_Stat X (world s) src of
           StatNotExist \<Rightarrow>
             (Returns (Inl (InvalidSourceDirectory (LibraryError ''no such file or directory''))), s)
         | StatError err \<Rightarrow> (Returns (Inl (InvalidSourceDirectory (LibraryError err))), s)
         | StatOk \<Rightarrow>
             (case imagesToCopyFromDir X src s of
                Inl err \<Rightarrow> (Returns (Inl err), s)
              | Inr tagged \<Rightarrow>
                  if length tagged = 0 then (Returns (Inl (NoImagesToSync src)), s)
                  else
                    (Returns (Inr [\<lparr>DirBasePath = src, TaggedImages = tagged,
                       Context = sourceCtx\<rparr>]), s)))
      else if transport = ''yaml'' then
        (case newSourceConfig X src s of
           Inl err \<Rightarrow> (Returns (Inl err), s)
         | Inr cfg \<Rightarrow> registries X sourceCtx cfg [] s)
      else (Returns (Inr []), s))"

subsection \<open>\<open>syncOptions.run\<close>\<close>

text \<open>The function literal \<open>contains\<close>.\<close>

fun contains :: "string \<Rightarrow> string list \<Rightarrow> bool" where
  "contains val [] = False"
| "contains val (l # list) = (if l = val then True else contains val list)"

text \<open>Lines 524 to 540: the checks on the two transports, before any planning.\<close>

definition validateTransports :: "syncOptions \<Rightarrow> error option" where
  "validateTransports opts =
     (if length (source opts) = 0 then Some SourceTransportMissing
      else if \<not> contains (source opts) [docker_Transport_Name, directory_Transport_Name, ''yaml'']
        then Some (NotAValidSourceTransport (source opts))
      else if length (destination opts) = 0 then Some DestinationTransportMissing
      else if \<not> contains (destination opts) [docker_Transport_Name, directory_Transport_Name]
        then Some (NotAValidDestinationTransport (destination opts))
      else if source opts = destination opts \<and> source opts = directory_Transport_Name
        then Some DirToDirNotImplemented
      else None)"

text \<open>
  The inner loop of lines 572 to 606, over the tagged images of one descriptor, with
  the number of images copied so far. The first error ends the run.
\<close>

fun copyTagged ::
  "'w externals \<Rightarrow> syncOptions \<Rightarrow> string \<Rightarrow> addr \<Rightarrow> repoDescriptor \<Rightarrow> ImageReference list
     \<Rightarrow> nat \<Rightarrow> 'w state \<Rightarrow> error option \<times> nat \<times> 'w state" where
  "copyTagged X opts dest destinationCtx srcRepo [] imagesNumber s = (None, imagesNumber, s)"
| "copyTagged X opts dest destinationCtx srcRepo (ref # refs) imagesNumber s =
     (let destSuffix = unscopedSuffix (scoped opts) (destSuffixOf ref (DirBasePath srcRepo))
      in case destinationReference X (path_Join [dest, destSuffix]) (destination opts) s of
           (Inl err, s1) \<Rightarrow> (Some err, imagesNumber, s1)
         | (Inr destRef, s1) \<Rightarrow>
             (let s2 = logf InfoLevel ''Copying image tag'' s1;
                  options = \<lparr>RemoveSignatures = removeSignatures opts,
                             SignBy = signByFingerprint opts,
                             SourceCtx = heap s2 ! Context srcRepo,
                             DestinationCtx = heap s2 ! destinationCtx\<rparr>
              in case copy_Image X (world s2) destRef ref options of
                   (Some err, w) \<Rightarrow>
                     (Some (ErrorCopyingTag ref (LibraryError err)), imagesNumber, s2\<lparr>world := w\<rparr>)
                 | (None, w) \<Rightarrow>
                     copyTagged X opts dest destinationCtx srcRepo refs (imagesNumber + 1)
                       (s2\<lparr>world := w\<rparr>)))"

text \<open>The outer loop of lines 570 to 607, over the descriptors.\<close>

fun copyRepos ::
  "'w externals \<Rightarrow> syncOptions \<Rightarrow> string \<Rightarrow> addr \<Rightarrow> repoDescriptor list
     \<Rightarrow> nat \<Rightarrow> 'w state \<Rightarrow> error option \<times> nat \<times> 'w state" where
  "copyRepos X opts dest destinationCtx [] imagesNumber s = (None, imagesNumber, s)"
| "copyRepos X opts dest destinationCtx (srcRepo # srcRepoList) imagesNumber s =
     (case copyTagged X opts dest destinationCtx srcRepo (TaggedImages srcRepo) imagesNumber s of
        (Some err, n, s1) \<Rightarrow> (Some err, n, s1)
      | (None, n, s1) \<Rightarrow> copyRepos X opts dest destinationCtx srcRepoList n s1)"

text \<open>
  \<open>run\<close> returns its error, \<open>None\<close> for nil. The two system contexts it makes are new
  cells of the store.
\<close>

definition run ::
  "'w externals \<Rightarrow> syncOptions \<Rightarrow> string list \<Rightarrow> 'w state \<Rightarrow> error option outcome \<times> 'w state" where
  "run X opts args s =
     (if length args \<noteq> 2 then (Returns (Some ExactlyTwoArguments), s)
      else case getPolicyContext X of
        Some err \<Rightarrow> (Returns (Some (ErrorLoadingTrustPolicy (LibraryError err))), s)
      | None \<Rightarrow>
         (case validateTransports opts of
            Some err \<Rightarrow> (Returns (Some err), s)
          | None \<Rightarrow>
             (case srcImage_newSystemContext X of
                Inl err \<Rightarrow> (Returns (Some (LibraryError err)), s)
              | Inr srcCtx \<Rightarrow>
                 (let sourceCtx = length (heap s);
                      s1 = s\<lparr>heap := heap s @ [srcCtx]\<rparr>
                  in case imagesToCopy X (args ! 0) (source opts) sourceCtx s1 of
                       (Panics pn, s2) \<Rightarrow> (Panics pn, s2)
                     | (Returns (Inl err), s2) \<Rightarrow> (Returns (Some err), s2)
                     | (Returns (Inr srcRepoList), s2) \<Rightarrow>
                         (case destImage_newSystemContext X of
                            Inl err \<Rightarrow> (Returns (Some (LibraryError err)), s2)
                          | Inr dstCtx \<Rightarrow>
                             (let destinationCtx = length (heap s2);
                                  s3 = s2\<lparr>heap := heap s2 @ [dstCtx]\<rparr>
                              in case copyRepos X opts (args ! 1) destinationCtx srcRepoList 0 s3 of
                                   (Some err, n, s4) \<Rightarrow> (Returns (Some err), s4)
                                 | (None, n, s4) \<Rightarrow>
                                     (Returns None, logf InfoLevel ''Synced images'' s4)))))))"

section \<open>A small outside world, for closed instances\<close>

text \<open>
  The world is the list of the paths that exist. Every repository publishes the tags
  \<open>tags\<close>, every source directory holds the tree \<open>tree\<close>, and every YAML file decodes
  to \<open>cfg\<close>. A docker reference is written \<open>//name:tag\<close> and prints as \<open>name:tag\<close>.
  The regular expression library knows three patterns: \<open>(\<close>, which does not
  compile, \<open>v1$\<close> and \<open>^50\<close>; any other pattern matches everything.
\<close>

definition exampleParse :: "string \<Rightarrow> string + ImageReference" where
  "exampleParse str =
     (if take 2 str = ''//'' \<and> CHR '' '' \<notin> set str then Inr (DockerReference (drop 2 str))
      else Inl ''invalid reference format'')"

definition exampleCompile :: "string \<Rightarrow> string + (string \<Rightarrow> bool)" where
  "exampleCompile pat =
     (if pat = ''('' then Inl ''error parsing regexp: missing closing )''
      else if pat = ''v1$'' then Inr (\<lambda>t. 2 \<le> length t \<and> drop (length t - 2) t = ''v1'')
      else if pat = ''^50'' then Inr (\<lambda>t. take 2 t = ''50'')
      else Inr (\<lambda>t. True))"

definition zeroContext :: SystemContext where
  "zeroContext =
     \<lparr>AuthFilePath = [], RegistriesDirPath = [], DockerRegistryUserAgent = [],
      DockerCertPath = [], DockerDaemonCertPath = [],
      DockerDaemonInsecureSkipTLSVerify = False,
      DockerInsecureSkipTLSVerify = OptionalBoolUndefined,
      DockerAuthConfig = None\<rparr>"

text \<open>
  A base context as the command line options of a run may have made it, and a state
  whose store holds it at address 0.
\<close>

definition baseContext :: SystemContext where
  "baseContext =
     \<lparr>AuthFilePath = ''/run/auth.json'', RegistriesDirPath = ''/etc/registries.d'',
      DockerRegistryUserAgent = ''skopeo'',
      DockerCertPath = ''/base/certs'', DockerDaemonCertPath = ''/base/daemon'',
      DockerDaemonInsecureSkipTLSVerify = True,
      DockerInsecureSkipTLSVerify = OptionalBoolTrue,
      DockerAuthConfig = Some \<lparr>Username = ''base'', Password = ''base-secret''\<rparr>\<rparr>"

definition baseState :: "(string list) state" where
  "baseState = \<lparr>world = [], heap = [baseContext], logs = []\<rparr>"

text \<open>Two registry entries that differ in every setting.\<close>

definition registryA :: registrySyncConfig where
  "registryA =
     \<lparr>Images = [(''repo'', NilTags), (''tool'', NilTags)],
      Credentials = \<lparr>Username = ''alice'', Password = ''secret-a''\<rparr>,
      TLSVerify = \<lparr>skip = OptionalBoolUndefined\<rparr>, CertDir = ''/certs/a''\<rparr>"

definition registryB :: registrySyncConfig where
  "registryB =
     \<lparr>Images = [(''app'', NilTags)],
      Credentials = \<lparr>Username = ''bob'', Password = ''secret-b''\<rparr>,
      TLSVerify = \<lparr>skip = OptionalBoolTrue\<rparr>, CertDir = ''/certs/b''\<rparr>"

definition exampleExternals ::
  "string list \<Rightarrow> fileTree \<Rightarrow> sourceConfig \<Rightarrow> (string list) externals" where
  "exampleExternals tags tree cfg =
     \<lparr>docker_ParseReference = exampleParse,
      directory_ParseReference = (\<lambda>p. Inr (DirectoryReference p)),
      docker_GetRepositoryTags = (\<lambda>w c r. Inr tags),
      docker_ReferenceName = (\<lambda>r. case r of DockerReference str \<Rightarrow> str | DirectoryReference p \<Rightarrow> p),
      reference_ParseNormalizedNamed = (\<lambda>n. Inr n),
      reference_IsNameOnly = (\<lambda>n. CHR '':'' \<notin> set n),
      regexp_Compile = exampleCompile,
      fmt_float64 = (\<lambda>f. []),
      os_Stat = (\<lambda>w p. if p \<in> set w then StatOk else StatNotExist),
      os_MkdirAll = (\<lambda>w p. (None, p # w)),
      filepath_tree = (\<lambda>w p. tree),
      ioutil_ReadFile = (\<lambda>w p. Inr []),
      yaml_Unmarshal = (\<lambda>b. Inr cfg),
      getPolicyContext = None,
      srcImage_newSystemContext = Inr zeroContext,
      destImage_newSystemContext = Inr zeroContext,
      copy_Image = (\<lambda>w d r opts. (None, w))\<rparr>"

definition exampleState :: "string list \<Rightarrow> (string list) state" where
  "exampleState existing = \<lparr>world = existing, heap = [zeroContext], logs = []\<rparr>"

definition exampleOptions :: "string \<Rightarrow> string \<Rightarrow> syncOptions" where
  "exampleOptions src dst =
     \<lparr>removeSignatures = False, signByFingerprint = [], source = src, destination = dst,
      scoped = False\<rparr>"

definition exampleRegistry :: "(string \<times> tagsValue) list \<Rightarrow> registrySyncConfig" where
  "exampleRegistry images =
     \<lparr>Images = images, Credentials = \<lparr>Username = ''user'', Password = ''secret''\<rparr>,
      TLSVerify = \<lparr>skip = OptionalBoolUndefined\<rparr>, CertDir = ''/certs''\<rparr>"

section \<open>The specification's own words\<close>

text \<open>
  The tag component of a reference as the specification words it: the substring
  after the first colon of the fully qualified reference string.
\<close>

definition tagComponent_spec :: "string \<Rightarrow> string" where
  "tagComponent_spec str = drop 1 (dropWhile (\<lambda>c. c \<noteq> CHR '':'') str)"

text \<open>
  A scalar entry of an explicit tag list is a string, an integer or a floating
  scalar; it is valid when the reference made of the repository and the entry
  parses.
\<close>

fun isScalar :: "tagValue \<Rightarrow> bool" where
  "isScalar OtherValue = False"
| "isScalar v = True"

definition validTag :: "'w externals \<Rightarrow> string \<Rightarrow> string \<Rightarrow> bool" where
  "validTag X repoName tag =
     (case docker_ParseReference X (repoName @ '':'' @ tag) of Inl err \<Rightarrow> False | Inr ref \<Rightarrow> True)"

definition referenceOf :: "'w externals \<Rightarrow> string \<Rightarrow> string \<Rightarrow> ImageReference list" where
  "referenceOf X repoName tag =
     (case docker_ParseReference X (repoName @ '':'' @ tag) of Inl err \<Rightarrow> [] | Inr ref \<Rightarrow> [ref])"

section \<open>Properties\<close>

subsection \<open>Destination suffix of a directory source\<close>

lemma path_Base_nonempty: "path_Base p \<noteq> []"
  by (simp add: path_Base_def Let_def)

lemma TrimPrefix_append: "strings_TrimPrefix (pre @ rest) pre = rest"
  by (simp add: strings_TrimPrefix_def strings_HasPrefix_def)

lemma afterLastSlash_no_slash: "CHR ''/'' \<notin> set (afterLastSlash p)"
  by (auto simp: afterLastSlash_def dest: set_takeWhileD)

lemma path_Base_leaf: "path_Base p = ''/'' \<or> CHR ''/'' \<notin> set (path_Base p)"
  by (simp add: path_Base_def Let_def afterLastSlash_no_slash)

lemma stripTrailingSlashes_leaf:
  assumes "leaf \<noteq> []" and "CHR ''/'' \<notin> set leaf"
  shows "stripTrailingSlashes (pre @ leaf @ replicate n (CHR ''/'')) = pre @ leaf"
proof -
  from assms have "last leaf \<in> set leaf" by simp
  with assms have "last leaf \<noteq> CHR ''/''" by metis
  with assms have "rev leaf \<noteq> []" and "hd (rev leaf) \<noteq> CHR ''/''"
    by (simp_all add: hd_rev)
  then have "dropWhile (\<lambda>c. c = CHR ''/'') (rev leaf @ rev pre) = rev leaf @ rev pre"
    by (cases "rev leaf") auto
  moreover have "dropWhile (\<lambda>c. c = CHR ''/'') (replicate n (CHR ''/'') @ rev leaf @ rev pre)
      = dropWhile (\<lambda>c. c = CHR ''/'') (rev leaf @ rev pre)"
    by (rule dropWhile_append2) simp
  ultimately show ?thesis by (simp add: stripTrailingSlashes_def)
qed

lemma afterLastSlash_leaf:
  assumes "CHR ''/'' \<notin> set leaf"
  shows "afterLastSlash (d @ CHR ''/'' # leaf) = leaf" and "afterLastSlash leaf = leaf"
proof -
  have tw: "takeWhile (\<lambda>c. c \<noteq> CHR ''/'') (rev leaf) = rev leaf"
    using assms by (auto simp: takeWhile_eq_all_conv)
  have "takeWhile (\<lambda>c. c \<noteq> CHR ''/'') (rev leaf @ CHR ''/'' # rev d)
      = takeWhile (\<lambda>c. c \<noteq> CHR ''/'') (rev leaf)"
    by (rule takeWhile_tail) simp
  then have tw2: "takeWhile (\<lambda>c. c \<noteq> CHR ''/'') (rev (d @ CHR ''/'' # leaf)) = rev leaf"
    by (simp add: tw)
  show "afterLastSlash (d @ CHR ''/'' # leaf) = leaf"
    unfolding afterLastSlash_def tw2 by simp
  show "afterLastSlash leaf = leaf"
    unfolding afterLastSlash_def tw by simp
qed

lemma path_Base_leaf_name:
  assumes "leaf \<noteq> []" and "CHR ''/'' \<notin> set leaf"
  shows "path_Base (d @ CHR ''/'' # leaf @ replicate n (CHR ''/'')) = leaf"
    and "path_Base (leaf @ replicate n (CHR ''/'')) = leaf"
proof -
  from stripTrailingSlashes_leaf [OF assms, of "d @ ''/''" n]
  have "stripTrailingSlashes (d @ CHR ''/'' # leaf @ replicate n (CHR ''/'')) = d @ CHR ''/'' # leaf"
    by simp
  then show "path_Base (d @ CHR ''/'' # leaf @ replicate n (CHR ''/'')) = leaf"
    using assms by (simp add: path_Base_def Let_def afterLastSlash_leaf)
  from stripTrailingSlashes_leaf [OF assms, of "[]" n]
  have "stripTrailingSlashes (leaf @ replicate n (CHR ''/'')) = leaf" by simp
  then show "path_Base (leaf @ replicate n (CHR ''/'')) = leaf"
    using assms by (simp add: path_Base_def Let_def afterLastSlash_leaf)
qed

text \<open>
  Claim C8. For a reference of the \<open>dir\<close> transport the destination suffix is the
  path of the reference with the base path of its descriptor trimmed from the
  front: for a reference below the base path, what follows the base path. When
  nothing is left, it is the last element of the base path: for a base path that
  ends in a slash-free name, with or without trailing slashes, that name. The
  suffix is never empty, with or without \<open>--scoped\<close>.
\<close>

theorem run_directory_suffix:
  "destSuffixOf (DirectoryReference p) base =
     (if strings_TrimPrefix p base = [] then path_Base base else strings_TrimPrefix p base)
   \<and> strings_TrimPrefix (base @ rest) base = rest
   \<and> destSuffixOf (DirectoryReference base) base = path_Base base
   \<and> (path_Base base = ''/'' \<or> CHR ''/'' \<notin> set (path_Base base))
   \<and> destSuffixOf (DirectoryReference p) base \<noteq> []
   \<and> unscopedSuffix sc (destSuffixOf (DirectoryReference p) base) \<noteq> []
   \<and> (leaf \<noteq> [] \<and> CHR ''/'' \<notin> set leaf \<longrightarrow>
        path_Base (d @ CHR ''/'' # leaf @ replicate n (CHR ''/'')) = leaf
        \<and> path_Base (leaf @ replicate n (CHR ''/'')) = leaf
        \<and> destSuffixOf (DirectoryReference (d @ CHR ''/'' # leaf)) (d @ CHR ''/'' # leaf) = leaf
        \<and> destSuffixOf (DirectoryReference (d @ CHR ''/'' # leaf @ replicate n (CHR ''/'')))
             (d @ CHR ''/'' # leaf @ replicate n (CHR ''/'')) = leaf)
   \<and> (rest' \<noteq> [] \<longrightarrow> destSuffixOf (DirectoryReference (base @ rest')) base = rest')"
proof -
  have t: "strings_TrimPrefix base base = []" using TrimPrefix_append [of base "[]"] by simp
  have self: "\<And>q. destSuffixOf (DirectoryReference q) q = path_Base q"
    using TrimPrefix_append [of _ "[]"] by (simp add: destSuffixOf_def Let_def)
  have leafs: "leaf \<noteq> [] \<and> CHR ''/'' \<notin> set leaf \<longrightarrow>
        path_Base (d @ CHR ''/'' # leaf @ replicate n (CHR ''/'')) = leaf
        \<and> path_Base (leaf @ replicate n (CHR ''/'')) = leaf
        \<and> destSuffixOf (DirectoryReference (d @ CHR ''/'' # leaf)) (d @ CHR ''/'' # leaf) = leaf
        \<and> destSuffixOf (DirectoryReference (d @ CHR ''/'' # leaf @ replicate n (CHR ''/'')))
             (d @ CHR ''/'' # leaf @ replicate n (CHR ''/'')) = leaf"
    using path_Base_leaf_name(1) [of leaf d n] path_Base_leaf_name(2) [of leaf n]
      path_Base_leaf_name(1) [of leaf d 0]
    by (simp add: self)
  have sub: "rest' \<noteq> [] \<longrightarrow> destSuffixOf (DirectoryReference (base @ rest')) base = rest'"
    by (simp add: destSuffixOf_def Let_def TrimPrefix_append)
  show ?thesis
    using leafs sub
    by (simp add: destSuffixOf_def unscopedSuffix_def Let_def path_Base_nonempty TrimPrefix_append
        path_Base_leaf t)
qed

theorem run_directory_suffix_witness:
  "destSuffixOf (DirectoryReference ''/images/busybox'') ''/images/busybox'' = ''busybox''
   \<and> destSuffixOf (DirectoryReference ''/images/busybox//'') ''/images/busybox//'' = ''busybox''
   \<and> path_Base ''busybox/'' = ''busybox''
   \<and> destSuffixOf (DirectoryReference ''/images/repo/app'') ''/images'' = ''/repo/app''"
proof -
  note T = run_directory_suffix [where leaf = "''busybox''" and d = "''/images''" and n = "Suc (Suc 0)"
      and base = "''/images''" and rest' = "''/repo/app''"]
  have h: "''busybox'' \<noteq> [] \<and> CHR ''/'' \<notin> set ''busybox''" by simp
  have r: "''/repo/app'' \<noteq> []" by simp
  note L = T [THEN conjunct2, THEN conjunct2, THEN conjunct2, THEN conjunct2, THEN conjunct2,
      THEN conjunct2, THEN conjunct1, THEN mp, OF h]
  note S = T [THEN conjunct2, THEN conjunct2, THEN conjunct2, THEN conjunct2, THEN conjunct2,
      THEN conjunct2, THEN conjunct2, THEN mp, OF r]
  note M = run_directory_suffix [where leaf = "''busybox''" and d = "''/images''" and n = "Suc 0",
      THEN conjunct2, THEN conjunct2, THEN conjunct2, THEN conjunct2, THEN conjunct2,
      THEN conjunct2, THEN conjunct1, THEN mp, OF h]
  from L S M show ?thesis by simp
qed

subsection \<open>Transports the planner does not know\<close>

text \<open>
  Claim C10. For a transport other than \<open>docker\<close>, \<open>dir\<close> and \<open>yaml\<close>,
  \<open>imagesToCopy\<close> returns no descriptor and no error, and leaves the state as it
  was. \<open>run\<close> never calls it with such a transport: its own checks return an error
  first.
\<close>

theorem imagesToCopy_other_transport:
  assumes "transport \<noteq> ''docker''" and "transport \<noteq> ''dir''" and "transport \<noteq> ''yaml''"
  shows "imagesToCopy X src transport sourceCtx s = (Returns (Inr []), s)
     \<and> validateTransports (opts\<lparr>source := transport\<rparr>) =
         Some (if transport = [] then SourceTransportMissing else NotAValidSourceTransport transport)
     \<and> run X (opts\<lparr>source := transport\<rparr>) [a0, a1] s =
         (Returns (Some (case getPolicyContext X of
                           Some err \<Rightarrow> ErrorLoadingTrustPolicy (LibraryError err)
                         | None \<Rightarrow> if transport = [] then SourceTransportMissing
                                   else NotAValidSourceTransport transport)), s)"
  using assms
  by (simp add: imagesToCopy_def validateTransports_def run_def docker_Transport_Name_def
      directory_Transport_Name_def split: option.split)

theorem imagesToCopy_other_transport_witness:
  "imagesToCopy (exampleExternals [] File []) ''registry.example.com/busybox'' ''oci'' 0
      (exampleState []) = (Returns (Inr []), exampleState [])
   \<and> validateTransports (exampleOptions ''oci'' ''dir'') = Some (NotAValidSourceTransport ''oci'')
   \<and> run (exampleExternals [] File []) (exampleOptions ''oci'' ''dir'')
        [''registry.example.com/busybox'', ''/out''] (exampleState [])
      = (Returns (Some (NotAValidSourceTransport ''oci'')), exampleState [])"
  using imagesToCopy_other_transport [of "''oci''" "exampleExternals [] File []"
      "''registry.example.com/busybox''" 0 "exampleState []" "exampleOptions ''oci'' ''dir''"
      "''registry.example.com/busybox''" "''/out''"]
  by (simp add: exampleExternals_def exampleOptions_def)

subsection \<open>A destination in the file system\<close>

text \<open>
  Claim C9. For the \<open>dir\<close> transport: when the destination path exists,
  \<open>destinationReference\<close> returns the refusing-to-overwrite error and the state is
  as it was, and the copy loops of \<open>run\<close> end with that error before anything is
  copied. Whenever the function returns a reference, the path did not exist,
  \<open>os.MkdirAll\<close> has created it, and the reference was parsed after that.
\<close>

theorem destinationReference_directory:
  "(os_Stat X (world s) d = StatOk \<longrightarrow>
      destinationReference X d ''dir'' s = (Inl (RefusingToOverwrite d), s))
   \<and> (destinationReference X d' ''dir'' s' = (Inr ref, t) \<longrightarrow>
        os_Stat X (world s') d' = StatNotExist
        \<and> os_MkdirAll X (world s') d' = (None, world t)
        \<and> directory_ParseReference X d' = Inr ref)
   \<and> (destination opts = ''dir'' \<and>
        os_Stat X (world s3)
          (path_Join [root, unscopedSuffix (scoped opts) (destSuffixOf r (DirBasePath srcRepo))]) = StatOk \<longrightarrow>
        copyTagged X opts root dctx srcRepo (r # rs) n s3 =
          (Some (RefusingToOverwrite
             (path_Join [root, unscopedSuffix (scoped opts) (destSuffixOf r (DirBasePath srcRepo))])), n, s3)
        \<and> copyRepos X opts root dctx (srcRepo\<lparr>TaggedImages := r # rs\<rparr> # others) n s3 =
          (Some (RefusingToOverwrite
             (path_Join [root, unscopedSuffix (scoped opts) (destSuffixOf r (DirBasePath srcRepo))])), n, s3))"
  by (auto simp: destinationReference_def docker_Transport_Name_def directory_Transport_Name_def
      logf_def Let_def split: statResult.splits prod.splits option.splits sum.splits)

theorem destinationReference_directory_witness:
  "destinationReference (exampleExternals [] File []) ''/out/a'' ''dir'' (exampleState [''/out/a''])
     = (Inl (RefusingToOverwrite ''/out/a''), exampleState [''/out/a''])
   \<and> destinationReference (exampleExternals [] File []) ''/out/b'' ''dir'' (exampleState [''/out/a''])
     = (Inr (DirectoryReference ''/out/b''),
        logf DebugLevel ''Destination for transport'' (exampleState [''/out/b'', ''/out/a'']))
   \<and> os_Stat (exampleExternals [] File []) (world (exampleState [''/out/a''])) ''/out/b'' = StatNotExist
   \<and> os_MkdirAll (exampleExternals [] File []) (world (exampleState [''/out/a''])) ''/out/b''
     = (None, world (logf DebugLevel ''Destination for transport'' (exampleState [''/out/b'', ''/out/a''])))
   \<and> copyTagged (exampleExternals [] File []) (exampleOptions ''docker'' ''dir'') ''/out'' 0
        \<lparr>DirBasePath = [], TaggedImages = [DockerReference ''registry.example.com/a:v1''], Context = 0\<rparr>
        [DockerReference ''registry.example.com/a:v1''] 0 (exampleState [''/out/a:v1''])
      = (Some (RefusingToOverwrite ''/out/a:v1''), 0, exampleState [''/out/a:v1''])"
proof -
  let ?X = "exampleExternals [] File []"
  let ?t = "logf DebugLevel ''Destination for transport'' (exampleState [''/out/b'', ''/out/a''])"
  let ?repo = "\<lparr>DirBasePath = [], TaggedImages = [DockerReference ''registry.example.com/a:v1''], Context = 0\<rparr>"
  have h1: "os_Stat ?X (world (exampleState [''/out/a''])) ''/out/a'' = StatOk"
    by (simp add: exampleExternals_def exampleState_def)
  have h2: "destinationReference ?X ''/out/b'' ''dir'' (exampleState [''/out/a''])
      = (Inr (DirectoryReference ''/out/b''), ?t)"
    by (simp add: destinationReference_def exampleExternals_def exampleState_def logf_def
        docker_Transport_Name_def directory_Transport_Name_def)
  have p: "path_Join [''/out'', unscopedSuffix (scoped (exampleOptions ''docker'' ''dir''))
       (destSuffixOf (DockerReference ''registry.example.com/a:v1'') (DirBasePath ?repo))] = ''/out/a:v1''"
    by code_simp
  have h3: "destination (exampleOptions ''docker'' ''dir'') = ''dir'' \<and>
      os_Stat ?X (world (exampleState [''/out/a:v1'']))
        (path_Join [''/out'', unscopedSuffix (scoped (exampleOptions ''docker'' ''dir''))
           (destSuffixOf (DockerReference ''registry.example.com/a:v1'') (DirBasePath ?repo))]) = StatOk"
    unfolding p by (simp add: exampleExternals_def exampleState_def exampleOptions_def)
  from destinationReference_directory [of ?X "exampleState [''/out/a'']" "''/out/a''" "''/out/b''"
      "exampleState [''/out/a'']" "DirectoryReference ''/out/b''" ?t
      "exampleOptions ''docker'' ''dir''" "exampleState [''/out/a:v1'']" "''/out''"
      "DockerReference ''registry.example.com/a:v1''" ?repo 0 "[]" 0 "[]"] h1 h2 h3
  show ?thesis unfolding p by simp
qed

subsection \<open>A registry that does not list its tags\<close>

text \<open>
  Claim C5. When the registry answers the tag listing of a repository with an
  unauthorized error, \<open>getImageTags\<close> returns the empty tag sequence and no error,
  after a warning. For a \<open>docker\<close> source that names no tag, \<open>imagesToCopy\<close> then
  finds no image and returns the no-images error, and \<open>run\<close> returns that error.
\<close>

theorem getImageTags_unauthorized:
  assumes parse: "docker_ParseReference X (''//'' @ src) = Inr srcRef"
    and named: "reference_ParseNormalizedNamed X src = Inr n"
    and nameOnly: "reference_IsNameOnly X n"
    and unauth: "\<And>c. docker_GetRepositoryTags X (world s) c srcRef = Inl (ErrUnauthorizedForCredentials m)"
    and policy: "getPolicyContext X = None"
    and ctx: "srcImage_newSystemContext X = Inr c0"
    and dst: "dst = ''docker'' \<or> dst = ''dir''"
  shows "getImageTags X a srcRef s =
           (Inr [], logf WarnLevel ''Registry disallows tag list retrieval''
                      (logf InfoLevel ''Getting tags'' s))
     \<and> fst (imagesToCopy X src ''docker'' a s) = Returns (Inl (NoImagesToSync src))
     \<and> fst (run X \<lparr>removeSignatures = rs, signByFingerprint = fp, source = ''docker'',
                   destination = dst, scoped = sc\<rparr> [src, target] s)
         = Returns (Some (NoImagesToSync src))"
proof -
  let ?opts = "\<lparr>removeSignatures = rs, signByFingerprint = fp, source = ''docker'',
                   destination = dst, scoped = sc\<rparr>"
  have parse': "docker_ParseReference X (CHR ''/'' # CHR ''/'' # src) = Inr srcRef"
    using parse by simp
  have g: "\<And>a t. world t = world s \<Longrightarrow> getImageTags X a srcRef t =
           (Inr [], logf WarnLevel ''Registry disallows tag list retrieval''
                      (logf InfoLevel ''Getting tags'' t))"
    by (simp add: getImageTags_def Let_def logf_def unauth)
  have r: "\<And>a t. world t = world s \<Longrightarrow>
      imagesToCopyFromRepo X srcRef (CHR ''/'' # CHR ''/'' # src) a t =
        (Inr [], logf WarnLevel ''Registry disallows tag list retrieval''
                      (logf InfoLevel ''Getting tags'' t))"
    by (simp add: imagesToCopyFromRepo_def g)
  have i: "\<And>a t. world t = world s \<Longrightarrow>
      fst (imagesToCopy X src ''docker'' a t) = Returns (Inl (NoImagesToSync src))"
    by (simp add: imagesToCopy_def docker_Transport_Name_def parse' isTagSpecified_def named
        nameOnly Let_def r logf_def)
  have v: "validateTransports ?opts = None"
    using dst by (auto simp: validateTransports_def docker_Transport_Name_def
        directory_Transport_Name_def)
  obtain t where e: "imagesToCopy X src ''docker'' (length (heap s)) (s\<lparr>heap := heap s @ [c0]\<rparr>)
      = (Returns (Inl (NoImagesToSync src)), t)"
    using i [of "s\<lparr>heap := heap s @ [c0]\<rparr>" "length (heap s)"]
    by (cases "imagesToCopy X src ''docker'' (length (heap s)) (s\<lparr>heap := heap s @ [c0]\<rparr>)") simp
  have "fst (run X ?opts [src, target] s) = Returns (Some (NoImagesToSync src))"
    by (simp add: run_def policy v ctx Let_def e)
  with g [of s a] i [of s a] show ?thesis by simp
qed

theorem getImageTags_unauthorized_witness:
  "getImageTags
      ((exampleExternals [] File [])
         \<lparr>docker_GetRepositoryTags := \<lambda>w c r. Inl (ErrUnauthorizedForCredentials ''unauthorized'')\<rparr>)
      0 (DockerReference ''registry.example.com/repo'') (exampleState []) =
           (Inr [], logf WarnLevel ''Registry disallows tag list retrieval''
                      (logf InfoLevel ''Getting tags'' (exampleState [])))
     \<and> fst (imagesToCopy
      ((exampleExternals [] File [])
         \<lparr>docker_GetRepositoryTags := \<lambda>w c r. Inl (ErrUnauthorizedForCredentials ''unauthorized'')\<rparr>)
         ''registry.example.com/repo'' ''docker'' 0 (exampleState []))
       = Returns (Inl (NoImagesToSync ''registry.example.com/repo''))
     \<and> fst (run
      ((exampleExternals [] File [])
         \<lparr>docker_GetRepositoryTags := \<lambda>w c r. Inl (ErrUnauthorizedForCredentials ''unauthorized'')\<rparr>)
         \<lparr>removeSignatures = False, signByFingerprint = [], source = ''docker'',
                   destination = ''dir'', scoped = False\<rparr>
         [''registry.example.com/repo'', ''/out''] (exampleState []))
         = Returns (Some (NoImagesToSync ''registry.example.com/repo''))"
  by (rule getImageTags_unauthorized [where n = "''registry.example.com/repo''"
        and ?c0.0 = zeroContext and m = "''unauthorized''"])
     (simp_all add: exampleExternals_def exampleParse_def)

subsection \<open>What planning does to the store\<close>

text \<open>
  Logging and the queries to a registry leave the world and the store as they are;
  one iteration of the loop over the images writes the overrides of the registry
  into the cell \<open>serverCtx\<close> and nowhere else.
\<close>

lemma logf_frame [simp]: "world (logf l m s) = world s" "heap (logf l m s) = heap s"
  by (simp_all add: logf_def)

lemma getImageTags_frame:
  "getImageTags X a r s = (res, s') \<Longrightarrow> world s' = world s \<and> heap s' = heap s"
  by (auto simp: getImageTags_def Let_def split: sum.splits listError.splits)

lemma imagesToCopyFromRepo_frame:
  "imagesToCopyFromRepo X r n a s = (res, s') \<Longrightarrow> world s' = world s \<and> heap s' = heap s"
  by (auto simp: imagesToCopyFromRepo_def split: prod.splits sum.splits dest: getImageTags_frame)

lemma queryRepo_frame:
  "queryRepo X n a s = (res, s') \<Longrightarrow> world s' = world s \<and> heap s' = heap s"
  by (auto simp: queryRepo_def Let_def split: prod.splits sum.splits
      dest!: imagesToCopyFromRepo_frame)

lemma coerceTags_frame:
  "coerceTags X vs s = (ts, s') \<Longrightarrow> world s' = world s \<and> heap s' = heap s"
  by (induction X vs s arbitrary: ts s' rule: coerceTags.induct) (auto split: prod.splits)

lemma tagListOf_frame:
  "tagListOf X tv s = (ts, s') \<Longrightarrow> world s' = world s \<and> heap s' = heap s"
  by (cases tv) (auto dest: coerceTags_frame)

lemma listedReferences_frame:
  "listedReferences X n ts s = (refs, s') \<Longrightarrow> world s' = world s \<and> heap s' = heap s"
  by (induction ts arbitrary: s refs s') (auto split: prod.splits sum.splits)

lemma appendDescriptor_frame:
  "appendDescriptor a refs s = (d, s') \<Longrightarrow> world s' = world s \<and> heap s' = heap s"
  by (auto simp: appendDescriptor_def split: if_splits)

lemma appendDescriptor_Some:
  "appendDescriptor a refs s = (Some d, s') \<Longrightarrow>
     Context d = a \<and> TaggedImages d = refs \<and> refs \<noteq> [] \<and> DirBasePath d = []"
  by (auto simp: appendDescriptor_def split: if_splits)

lemma registryImage_frame:
  assumes "registryImage X name cfg a e s = (res, s')"
  shows "world s' = world s \<and> heap s' = (heap s)[a := overrideContext cfg (heap s ! a)]"
proof (cases "snd e")
  case (StringTags pat)
  with assms show ?thesis
    by (auto simp: registryImage_def Let_def
        split: prod.splits sum.splits option.splits outcome.splits
        dest!: queryRepo_frame appendDescriptor_frame)
next
  case OtherTags
  with assms show ?thesis by (auto simp: registryImage_def Let_def)
next
  case NilTags
  with assms show ?thesis
    by (auto simp: registryImage_def Let_def
        split: prod.splits sum.splits option.splits outcome.splits if_splits
        dest!: queryRepo_frame appendDescriptor_frame)
next
  case (StringSlice x)
  with assms show ?thesis
    by (auto simp: registryImage_def Let_def
        split: prod.splits sum.splits option.splits outcome.splits if_splits
        dest!: queryRepo_frame appendDescriptor_frame listedReferences_frame)
next
  case (InterfaceSlice x)
  with assms show ?thesis
    by (auto simp: registryImage_def Let_def
        split: prod.splits sum.splits option.splits outcome.splits if_splits
        dest!: queryRepo_frame appendDescriptor_frame listedReferences_frame coerceTags_frame)
qed

lemma registryImage_Some:
  assumes "registryImage X name cfg a e s = (Returns (Some d), s')"
  shows "Context d = a \<and> TaggedImages d \<noteq> [] \<and> DirBasePath d = []"
  using assms
  by (cases "snd e")
     (auto simp: registryImage_def Let_def
        split: prod.splits sum.splits option.splits outcome.splits if_splits
        dest!: appendDescriptor_Some)

lemma overrideContext_idem: "overrideContext cfg (overrideContext cfg c) = overrideContext cfg c"
  by (simp add: overrideContext_def)

lemma overrideContext_Images: "overrideContext (cfg\<lparr>Images := es\<rparr>) = overrideContext cfg"
  by (rule ext) (simp add: overrideContext_def)

lemma registryImage_Images:
  "registryImage X name (cfg\<lparr>Images := es\<rparr>) = registryImage X name cfg"
  by (intro ext) (simp add: registryImage_def overrideContext_Images)

lemma registryImages_Images:
  "registryImages X name (cfg\<lparr>Images := es\<rparr>) a xs ds s = registryImages X name cfg a xs ds s"
  by (induction xs arbitrary: ds s)
     (auto simp: registryImage_Images split: prod.splits outcome.splits option.splits)

lemma registryImages_frame:
  "registryImages X name cfg a es ds s = (res, s') \<Longrightarrow> a < length (heap s) \<Longrightarrow>
     world s' = world s \<and>
     heap s' = (if es = [] then heap s else (heap s)[a := overrideContext cfg (heap s ! a)])"
proof (induction es arbitrary: ds s)
  case Nil
  then show ?case by simp
next
  case (Cons e es)
  obtain r1 s1 where step: "registryImage X name cfg a e s = (r1, s1)"
    by (cases "registryImage X name cfg a e s")
  note fr = registryImage_frame [OF step]
  have len: "a < length (heap s1)" using fr Cons.prems(2) by simp
  have val: "heap s1 ! a = overrideContext cfg (heap s ! a)" using fr Cons.prems(2) by simp
  show ?case
  proof (cases r1)
    case (Panics pn)
    with Cons.prems(1) step fr show ?thesis by simp
  next
    case (Returns od)
    then obtain ds' where rest: "registryImages X name cfg a es ds' s1 = (res, s')"
      using Cons.prems(1) step by (cases od) auto
    from Cons.IH [OF rest len] fr val show ?thesis
      by (simp add: overrideContext_idem)
  qed
qed

lemma registryImages_descs:
  "registryImages X name cfg a es ds s = (Returns out, s') \<Longrightarrow>
     \<exists>new. out = ds @ new \<and> (\<forall>d\<in>set new. Context d = a \<and> TaggedImages d \<noteq> [])
        \<and> (es = [] \<longrightarrow> new = [])"
proof (induction es arbitrary: ds s)
  case Nil
  then show ?case by simp
next
  case (Cons e es)
  obtain r1 s1 where step: "registryImage X name cfg a e s = (r1, s1)"
    by (cases "registryImage X name cfg a e s")
  show ?case
  proof (cases r1)
    case (Panics pn)
    with Cons.prems step show ?thesis by simp
  next
    case (Returns od)
    show ?thesis
    proof (cases od)
      case None
      with Returns Cons.prems step have "registryImages X name cfg a es ds s1 = (Returns out, s')"
        by simp
      from Cons.IH [OF this] show ?thesis by auto
    next
      case (Some d)
      with Returns Cons.prems step
      have "registryImages X name cfg a es (ds @ [d]) s1 = (Returns out, s')" by simp
      from Cons.IH [OF this] obtain new where
        n: "out = (ds @ [d]) @ new" "\<forall>d\<in>set new. Context d = a \<and> TaggedImages d \<noteq> []"
        by auto
      from registryImage_Some step Returns Some
      have "Context d = a \<and> TaggedImages d \<noteq> []" by blast
      with n show ?thesis by (intro exI [of _ "d # new"]) auto
    qed
  qed
qed

lemma registryImages_append:
  "registryImages X name cfg a (es1 @ es2) ds s =
     (case registryImages X name cfg a es1 ds s of
        (Returns ds1, s1) \<Rightarrow> registryImages X name cfg a es2 ds1 s1
      | (Panics pn, s1) \<Rightarrow> (Panics pn, s1))"
  by (induction es1 arbitrary: ds s)
     (auto split: prod.splits outcome.splits option.splits)

lemma imagesToCopyFromRegistry_frame:
  assumes "imagesToCopyFromRegistry X name cfg c s = (res, s')"
  shows "world s' = world s \<and>
     heap s' = heap s @ [if Images cfg = [] then c else overrideContext cfg c]"
proof -
  let ?s0 = "s\<lparr>heap := heap s @ [c]\<rparr>"
  obtain r1 where r: "registryImages X name cfg (length (heap s)) (Images cfg) [] ?s0 = (r1, s')"
    using assms
    by (cases "registryImages X name cfg (length (heap s)) (Images cfg) [] ?s0")
       (auto simp: imagesToCopyFromRegistry_def Let_def split: outcome.splits)
  from registryImages_frame [OF r] show ?thesis by simp
qed

lemma imagesToCopyFromRegistry_descs:
  assumes "imagesToCopyFromRegistry X name cfg c s = (Returns res, s')"
  shows "\<exists>descs. res = Inr descs \<and>
           (\<forall>d\<in>set descs. Context d = length (heap s) \<and> TaggedImages d \<noteq> [])
           \<and> (Images cfg = [] \<longrightarrow> descs = [])"
proof -
  let ?s0 = "s\<lparr>heap := heap s @ [c]\<rparr>"
  obtain out where r: "registryImages X name cfg (length (heap s)) (Images cfg) [] ?s0 = (Returns out, s')"
      and o: "res = Inr out"
    using assms
    by (cases "registryImages X name cfg (length (heap s)) (Images cfg) [] ?s0")
       (auto simp: imagesToCopyFromRegistry_def Let_def split: outcome.splits)
  from registryImages_descs [OF r] o show ?thesis by auto
qed

subsection \<open>The \<open>tls-verify\<close> key\<close>

text \<open>
  Claim C6. When a registry entry has no \<open>tls-verify\<close> key, its \<open>TLSVerify\<close>
  field keeps the zero value of \<open>tlsVerifyConfig\<close>, whose \<open>skip\<close> is the undefined
  optional boolean, and the context of every descriptor planned for that registry
  does not ask to skip verification: \<open>DockerInsecureSkipTLSVerify\<close> is undefined and
  \<open>DockerDaemonInsecureSkipTLSVerify\<close> is false. The key given as \<open>false\<close>, which
  is the zero value of a \<open>bool\<close>, decodes to \<open>skip\<close> true instead.
\<close>

theorem tlsVerify_absent_enforces:
  "decodeTLSVerify None = Inr \<lparr>skip = OptionalBoolUndefined\<rparr>
   \<and> decodeTLSVerify (Some (Inr False)) = Inr \<lparr>skip = OptionalBoolTrue\<rparr>
   \<and> (decodeTLSVerify None = Inr (TLSVerify cfg)
        \<and> imagesToCopyFromRegistry X name cfg c s = (Returns (Inr descs), s')
        \<and> d \<in> set descs \<longrightarrow>
      DockerInsecureSkipTLSVerify (heap s' ! Context d) = OptionalBoolUndefined
      \<and> \<not> DockerDaemonInsecureSkipTLSVerify (heap s' ! Context d))"
proof (intro conjI impI)
  show "decodeTLSVerify None = Inr \<lparr>skip = OptionalBoolUndefined\<rparr>"
    by (simp add: decodeTLSVerify_def)
  show "decodeTLSVerify (Some (Inr False)) = Inr \<lparr>skip = OptionalBoolTrue\<rparr>"
    by (simp add: decodeTLSVerify_def UnmarshalYAML_def NewOptionalBool_def)
next
  assume a: "decodeTLSVerify None = Inr (TLSVerify cfg)
        \<and> imagesToCopyFromRegistry X name cfg c s = (Returns (Inr descs), s')
        \<and> d \<in> set descs"
  then have "TLSVerify cfg = \<lparr>skip = OptionalBoolUndefined\<rparr>"
    by (auto simp: decodeTLSVerify_def)
  then have t: "skip (TLSVerify cfg) = OptionalBoolUndefined"
    by simp
  from a imagesToCopyFromRegistry_descs [of X name cfg c s "Inr descs" s']
  have cd: "Context d = length (heap s)" and ne: "Images cfg \<noteq> []" by auto
  from a imagesToCopyFromRegistry_frame [of X name cfg c s _ s'] ne
  have h: "heap s' ! Context d = overrideContext cfg c" by (simp add: cd)
  show "DockerInsecureSkipTLSVerify (heap s' ! Context d) = OptionalBoolUndefined"
    by (simp add: h overrideContext_def t)
  show "\<not> DockerDaemonInsecureSkipTLSVerify (heap s' ! Context d)"
    by (simp add: h overrideContext_def t)
qed

theorem tlsVerify_absent_enforces_witness:
  "decodeTLSVerify None = Inr (TLSVerify (exampleRegistry [(''repo'', NilTags)]))
   \<and> fst (imagesToCopyFromRegistry (exampleExternals [''v1''] File []) ''registry.example.com''
          (exampleRegistry [(''repo'', NilTags)]) zeroContext (exampleState []))
      = Returns (Inr [\<lparr>DirBasePath = [],
           TaggedImages = [DockerReference ''registry.example.com/repo:v1''], Context = 1\<rparr>])
   \<and> DockerInsecureSkipTLSVerify
        (heap (snd (imagesToCopyFromRegistry (exampleExternals [''v1''] File []) ''registry.example.com''
          (exampleRegistry [(''repo'', NilTags)]) zeroContext (exampleState []))) ! 1)
      = OptionalBoolUndefined
   \<and> \<not> DockerDaemonInsecureSkipTLSVerify
        (heap (snd (imagesToCopyFromRegistry (exampleExternals [''v1''] File []) ''registry.example.com''
          (exampleRegistry [(''repo'', NilTags)]) zeroContext (exampleState []))) ! 1)"
proof -
  let ?X = "exampleExternals [''v1''] File []"
  let ?cfg = "exampleRegistry [(''repo'', NilTags)]"
  let ?d = "\<lparr>DirBasePath = [],
           TaggedImages = [DockerReference ''registry.example.com/repo:v1''], Context = 1\<rparr>"
  let ?run = "imagesToCopyFromRegistry ?X ''registry.example.com'' ?cfg zeroContext (exampleState [])"
  have h1: "decodeTLSVerify None = Inr (TLSVerify ?cfg)"
    by (simp add: decodeTLSVerify_def exampleRegistry_def)
  have h2: "fst ?run = Returns (Inr [?d])"
    by code_simp
  then have h3: "?run = (Returns (Inr [?d]), snd ?run)"
    by (metis prod.collapse)
  from tlsVerify_absent_enforces [where cfg = ?cfg and X = ?X and name = "''registry.example.com''"
      and c = zeroContext and s = "exampleState []" and descs = "[?d]" and s' = "snd ?run"
      and d = ?d] h1 h2 h3
  show ?thesis by simp
qed

subsection \<open>Contexts are copied, then overridden\<close>

lemma registries_append:
  "registries X base (rs1 @ rs2) ds s =
     (case registries X base rs1 ds s of
        (Returns (Inr ds1), s1) \<Rightarrow> registries X base rs2 ds1 s1
      | r \<Rightarrow> r)"
  by (induction X base rs1 ds s rule: registries.induct)
     (auto split: prod.splits outcome.splits sum.splits)

lemma registries_frame:
  "registries X base rs ds s = (res, s') \<Longrightarrow>
     world s' = world s \<and> length (heap s) \<le> length (heap s') \<and>
     take (length (heap s)) (heap s') = heap s"
proof (induction X base rs ds s rule: registries.induct)
  case (1 X sourceCtx descriptors s)
  then show ?case by simp
next
  case (2 X sourceCtx registryName registryConfig rest descriptors s)
  show ?case
  proof (cases "length (Images registryConfig) = 0")
    case True
    with 2 show ?thesis by simp
  next
    case False
    obtain r1 s1 where step:
      "imagesToCopyFromRegistry X registryName registryConfig (heap s ! sourceCtx) s = (r1, s1)"
      by (cases "imagesToCopyFromRegistry X registryName registryConfig (heap s ! sourceCtx) s")
    note fr = imagesToCopyFromRegistry_frame [OF step]
    show ?thesis
    proof (cases r1)
      case (Panics pn)
      with "2.prems" False step fr show ?thesis by simp
    next
      case (Returns e)
      show ?thesis
      proof (cases e)
        case (Inl err)
        with "2.prems" False step fr Returns show ?thesis by simp
      next
        case (Inr descs)
        with "2.prems" False step Returns
        have rest: "registries X sourceCtx rest (descriptors @ descs) s1 = (res, s')" by simp
        from "2.IH"(2) [OF False step [symmetric] Returns Inr rest] fr
        show ?thesis
          by (auto simp: take_Suc_conv_app_nth dest: arg_cong [where f = "take (length (heap s))"])
      qed
    qed
  qed
qed

lemma registries_descs:
  "registries X base rs ds s = (Returns (Inr out), s') \<Longrightarrow> base < length (heap s) \<Longrightarrow>
     \<exists>new. out = ds @ new \<and>
       (\<forall>d\<in>set new. length (heap s) \<le> Context d \<and> Context d < length (heap s') \<and>
          (\<exists>cfg\<in>snd ` set rs. heap s' ! Context d = overrideContext cfg (heap s ! base)))"
proof (induction X base rs ds s rule: registries.induct)
  case (1 X sourceCtx descriptors s)
  then show ?case by simp
next
  case (2 X sourceCtx registryName registryConfig rest descriptors s)
  show ?case
  proof (cases "length (Images registryConfig) = 0")
    case True
    with "2.prems" have
      "registries X sourceCtx rest descriptors (logf WarnLevel ''No images specified for registry'' s)
         = (Returns (Inr out), s')" by simp
    from "2.IH"(1) [OF True this] "2.prems"(2) show ?thesis by auto
  next
    case False
    let ?c = "heap s ! sourceCtx"
    obtain r1 s1 where step:
      "imagesToCopyFromRegistry X registryName registryConfig ?c s = (r1, s1)"
      by (cases "imagesToCopyFromRegistry X registryName registryConfig ?c s")
    from "2.prems"(1) False step obtain descs where r1: "r1 = Returns (Inr descs)"
      and rest: "registries X sourceCtx rest (descriptors @ descs) s1 = (Returns (Inr out), s')"
      by (auto split: outcome.splits sum.splits)
    from imagesToCopyFromRegistry_frame [OF step] False
    have h1: "heap s1 = heap s @ [overrideContext registryConfig ?c]" by simp
    from imagesToCopyFromRegistry_descs [OF step [unfolded r1]]
    have dc: "\<forall>d\<in>set descs. Context d = length (heap s)" by auto
    have b1: "sourceCtx < length (heap s1)" using h1 "2.prems"(2) by simp
    from "2.IH"(2) [OF False step [symmetric] r1 refl rest b1] obtain new where
      out: "out = (descriptors @ descs) @ new" and
      new: "\<forall>d\<in>set new. length (heap s1) \<le> Context d \<and> Context d < length (heap s') \<and>
          (\<exists>cfg\<in>snd ` set rest. heap s' ! Context d = overrideContext cfg (heap s1 ! sourceCtx))"
      by blast
    from registries_frame [OF rest]
    have le: "length (heap s1) \<le> length (heap s')"
      and tk: "take (length (heap s1)) (heap s') = heap s1" by auto
    have same: "heap s1 ! sourceCtx = ?c" using h1 "2.prems"(2) by (simp add: nth_append)
    have cell: "heap s' ! length (heap s) = overrideContext registryConfig ?c"
    proof -
      have "heap s' ! length (heap s) = take (length (heap s1)) (heap s') ! length (heap s)"
        using h1 by simp
      also have "\<dots> = heap s1 ! length (heap s)" by (simp only: tk)
      also have "\<dots> = overrideContext registryConfig ?c" by (simp add: h1)
      finally show ?thesis .
    qed
    have "\<forall>d\<in>set (descs @ new). length (heap s) \<le> Context d \<and> Context d < length (heap s') \<and>
          (\<exists>cfg\<in>snd ` set ((registryName, registryConfig) # rest).
              heap s' ! Context d = overrideContext cfg ?c)"
    proof
      fix d assume "d \<in> set (descs @ new)"
      then consider "d \<in> set descs" | "d \<in> set new" by auto
      then show "length (heap s) \<le> Context d \<and> Context d < length (heap s') \<and>
          (\<exists>cfg\<in>snd ` set ((registryName, registryConfig) # rest).
              heap s' ! Context d = overrideContext cfg ?c)"
      proof cases
        case 1
        with dc have "Context d = length (heap s)" by simp
        with cell le h1 show ?thesis by simp
      next
        case 2
        with new same h1 show ?thesis by fastforce
      qed
    qed
    with out show ?thesis by (intro exI [of _ "descs @ new"]) simp
  qed
qed

lemma isTagSpecified_frame:
  "isTagSpecified X n s = (res, s') \<Longrightarrow> world s' = world s \<and> heap s' = heap s"
  by (auto simp: isTagSpecified_def split: sum.splits)

lemma imagesToCopy_frame:
  assumes "imagesToCopy X src tr base s = (res, s')"
  shows "world s' = world s \<and> take (length (heap s)) (heap s') = heap s"
proof -
  consider (docker) "tr = docker_Transport_Name"
    | (dir) "tr \<noteq> docker_Transport_Name" "tr = directory_Transport_Name"
    | (yaml) "tr \<noteq> docker_Transport_Name" "tr \<noteq> directory_Transport_Name" "tr = ''yaml''"
    | (other) "tr \<noteq> docker_Transport_Name" "tr \<noteq> directory_Transport_Name" "tr \<noteq> ''yaml''"
    by blast
  then show ?thesis
  proof cases
    case docker
    with assms show ?thesis
      by (auto simp: imagesToCopy_def Let_def split: sum.splits prod.splits if_splits
          dest!: isTagSpecified_frame imagesToCopyFromRepo_frame)
  next
    case dir
    with assms show ?thesis
      by (auto simp: imagesToCopy_def split: statResult.splits sum.splits if_splits)
  next
    case yaml
    with assms show ?thesis
      by (auto simp: imagesToCopy_def split: sum.splits dest!: registries_frame)
  next
    case other
    with assms show ?thesis by (simp add: imagesToCopy_def)
  qed
qed

lemma contexts_frozen:
  "(imagesToCopy X src tr base s = (res, s') \<longrightarrow>
      take (length (heap s)) (heap s') = heap s
      \<and> (base < length (heap s) \<longrightarrow> heap s' ! base = heap s ! base))
   \<and> (registries X base2 (rs1 @ rs2) [] s2 = (Returns (Inr out2), s2') \<and> base2 < length (heap s2) \<longrightarrow>
        (\<exists>ds1 s1 ds2.
           registries X base2 rs1 [] s2 = (Returns (Inr ds1), s1) \<and> out2 = ds1 @ ds2
           \<and> (\<forall>d\<in>set ds1. Context d \<noteq> base2 \<and> heap s2' ! Context d = heap s1 ! Context d)
           \<and> (\<forall>d\<in>set out2. \<exists>cfg\<in>snd ` set (rs1 @ rs2).
                  heap s2' ! Context d = overrideContext cfg (heap s2 ! base2))))
   \<and> (imagesToCopyFromRegistry X name (cfg\<lparr>Images := es1 @ es2\<rparr>) c s3 = (Returns (Inr out3), s3') \<longrightarrow>
        (\<exists>ds1 s1 ds2.
           imagesToCopyFromRegistry X name (cfg\<lparr>Images := es1\<rparr>) c s3 = (Returns (Inr ds1), s1)
           \<and> out3 = ds1 @ ds2
           \<and> (\<forall>d\<in>set ds1. Context d = length (heap s3)
                 \<and> heap s3' ! Context d = heap s1 ! Context d)))"
proof (intro conjI impI)
  assume a: "imagesToCopy X src tr base s = (res, s')"
  show t: "take (length (heap s)) (heap s') = heap s"
    using imagesToCopy_frame [OF a] by simp
  assume b: "base < length (heap s)"
  have "heap s' ! base = take (length (heap s)) (heap s') ! base" using b by simp
  then show "heap s' ! base = heap s ! base" by (simp only: t)
next
  assume "registries X base2 (rs1 @ rs2) [] s2 = (Returns (Inr out2), s2') \<and> base2 < length (heap s2)"
  then have whole: "registries X base2 (rs1 @ rs2) [] s2 = (Returns (Inr out2), s2')"
    and b: "base2 < length (heap s2)" by auto
  obtain r1 s1 where first: "registries X base2 rs1 [] s2 = (r1, s1)"
    by (cases "registries X base2 rs1 [] s2")
  from whole first obtain ds1 where r1: "r1 = Returns (Inr ds1)"
    and second: "registries X base2 rs2 ds1 s1 = (Returns (Inr out2), s2')"
    by (auto simp: registries_append split: outcome.splits sum.splits)
  note first' = first [unfolded r1]
  from registries_frame [OF first'] have b1: "base2 < length (heap s1)" using b by simp
  from registries_descs [OF first' b]
  have d1: "\<forall>d\<in>set ds1. length (heap s2) \<le> Context d \<and> Context d < length (heap s1)" by auto
  from registries_descs [OF second b1] obtain ds2 where out: "out2 = ds1 @ ds2" by blast
  from registries_frame [OF second] have tk: "take (length (heap s1)) (heap s2') = heap s1" by simp
  have frozen: "\<forall>d\<in>set ds1. Context d \<noteq> base2 \<and> heap s2' ! Context d = heap s1 ! Context d"
  proof
    fix d assume "d \<in> set ds1"
    with d1 have r: "length (heap s2) \<le> Context d" "Context d < length (heap s1)" by auto
    have "heap s2' ! Context d = take (length (heap s1)) (heap s2') ! Context d" using r by simp
    then have "heap s2' ! Context d = heap s1 ! Context d" by (simp only: tk)
    with r b show "Context d \<noteq> base2 \<and> heap s2' ! Context d = heap s1 ! Context d" by simp
  qed
  from registries_descs [OF whole b]
  have vals: "\<forall>d\<in>set out2. \<exists>cfg\<in>snd ` set (rs1 @ rs2).
                  heap s2' ! Context d = overrideContext cfg (heap s2 ! base2)" by auto
  from first' out frozen vals
  show "\<exists>ds1 s1 ds2.
           registries X base2 rs1 [] s2 = (Returns (Inr ds1), s1) \<and> out2 = ds1 @ ds2
           \<and> (\<forall>d\<in>set ds1. Context d \<noteq> base2 \<and> heap s2' ! Context d = heap s1 ! Context d)
           \<and> (\<forall>d\<in>set out2. \<exists>cfg\<in>snd ` set (rs1 @ rs2).
                  heap s2' ! Context d = overrideContext cfg (heap s2 ! base2))"
    by blast
next
  assume a: "imagesToCopyFromRegistry X name (cfg\<lparr>Images := es1 @ es2\<rparr>) c s3 = (Returns (Inr out3), s3')"
  let ?a = "length (heap s3)"
  let ?s0 = "s3\<lparr>heap := heap s3 @ [c]\<rparr>"
  from a have whole: "registryImages X name cfg ?a (es1 @ es2) [] ?s0 = (Returns out3, s3')"
    by (auto simp: imagesToCopyFromRegistry_def Let_def registryImages_Images
        split: prod.splits outcome.splits)
  obtain r1 s1 where first: "registryImages X name cfg ?a es1 [] ?s0 = (r1, s1)"
    by (cases "registryImages X name cfg ?a es1 [] ?s0")
  from whole first obtain ds1 where r1: "r1 = Returns ds1"
    and second: "registryImages X name cfg ?a es2 ds1 s1 = (Returns out3, s3')"
    by (auto simp: registryImages_append split: outcome.splits)
  note first' = first [unfolded r1]
  have call1: "imagesToCopyFromRegistry X name (cfg\<lparr>Images := es1\<rparr>) c s3 = (Returns (Inr ds1), s1)"
    using first' by (simp add: imagesToCopyFromRegistry_def Let_def registryImages_Images)
  from registryImages_descs [OF second] obtain ds2 where out: "out3 = ds1 @ ds2" by blast
  from registryImages_descs [OF first']
  have d1: "\<forall>d\<in>set ds1. Context d = ?a" and ne: "es1 = [] \<longrightarrow> ds1 = []" by auto
  have a0: "?a < length (heap ?s0)" by simp
  from registryImages_frame [OF first' a0]
  have h1: "heap s1 = (if es1 = [] then heap ?s0 else (heap ?s0)[?a := overrideContext cfg (heap ?s0 ! ?a)])"
    by simp
  then have a1: "?a < length (heap s1)" by simp
  from registryImages_frame [OF second a1]
  have h2: "heap s3' = (if es2 = [] then heap s1 else (heap s1)[?a := overrideContext cfg (heap s1 ! ?a)])"
    by simp
  have frozen: "\<forall>d\<in>set ds1. Context d = ?a \<and> heap s3' ! Context d = heap s1 ! Context d"
  proof
    fix d assume d: "d \<in> set ds1"
    with ne have "es1 \<noteq> []" by auto
    with h1 have "heap s1 ! ?a = overrideContext cfg c" by simp
    with h2 a1 have "heap s3' ! ?a = heap s1 ! ?a" by (simp add: overrideContext_idem)
    with d d1 show "Context d = ?a \<and> heap s3' ! Context d = heap s1 ! Context d" by simp
  qed
  from call1 out frozen
  show "\<exists>ds1 s1 ds2.
           imagesToCopyFromRegistry X name (cfg\<lparr>Images := es1\<rparr>) c s3 = (Returns (Inr ds1), s1)
           \<and> out3 = ds1 @ ds2
           \<and> (\<forall>d\<in>set ds1. Context d = length (heap s3)
                 \<and> heap s3' ! Context d = heap s1 ! Context d)"
    by blast
qed

lemma overrideContext_fields:
  "overrideContext cfg c =
     c\<lparr>DockerCertPath := CertDir cfg,
       DockerDaemonCertPath := CertDir cfg,
       DockerDaemonInsecureSkipTLSVerify := (skip (TLSVerify cfg) = OptionalBoolTrue),
       DockerInsecureSkipTLSVerify := skip (TLSVerify cfg),
       DockerAuthConfig := Some (Credentials cfg)\<rparr>"
  by (simp add: overrideContext_def)

lemma registries_acc:
  "registries X base rs ds s =
     (case registries X base rs [] s of
        (Returns (Inr out), s') \<Rightarrow> (Returns (Inr (ds @ out)), s')
      | r \<Rightarrow> r)"
proof (induction rs arbitrary: ds s)
  case Nil
  show ?case by simp
next
  case (Cons rc rs)
  obtain name cfg where rc: "rc = (name, cfg)" by (cases rc)
  show ?case
  proof (cases "length (Images cfg) = 0")
    case True
    then show ?thesis using Cons [of ds "logf WarnLevel ''No images specified for registry'' s"]
      by (simp add: rc)
  next
    case False
    obtain r1 s1 where step:
      "imagesToCopyFromRegistry X name cfg (heap s ! base) s = (r1, s1)"
      by (cases "imagesToCopyFromRegistry X name cfg (heap s ! base) s")
    show ?thesis
    proof (cases r1)
      case (Panics pn)
      then show ?thesis using False step by (simp add: rc)
    next
      case (Returns e)
      show ?thesis
      proof (cases e)
        case (Inl err)
        then show ?thesis using False step Returns by (simp add: rc)
      next
        case (Inr descs)
        have a: "registries X base rs (ds @ descs) s1 =
            (case registries X base rs [] s1 of
               (Returns (Inr out), s') \<Rightarrow> (Returns (Inr ((ds @ descs) @ out)), s')
             | r \<Rightarrow> r)"
          by (rule Cons)
        have b: "registries X base rs descs s1 =
            (case registries X base rs [] s1 of
               (Returns (Inr out), s') \<Rightarrow> (Returns (Inr (descs @ out)), s')
             | r \<Rightarrow> r)"
          by (rule Cons)
        show ?thesis using False step Returns Inr
          by (simp add: rc a b split: prod.splits outcome.splits sum.splits)
      qed
    qed
  qed
qed

lemma registries_store:
  "registries X base rs ds s = (Returns (Inr out), s') \<Longrightarrow> base < length (heap s) \<Longrightarrow>
     heap s' = heap s @ map (\<lambda>rc. overrideContext (snd rc) (heap s ! base))
                          (filter (\<lambda>rc. Images (snd rc) \<noteq> []) rs)"
proof (induction X base rs ds s rule: registries.induct)
  case (1 X sourceCtx descriptors s)
  then show ?case by simp
next
  case (2 X sourceCtx registryName registryConfig rest descriptors s)
  show ?case
  proof (cases "length (Images registryConfig) = 0")
    case True
    with "2.prems" have
      "registries X sourceCtx rest descriptors (logf WarnLevel ''No images specified for registry'' s)
         = (Returns (Inr out), s')" by simp
    from "2.IH"(1) [OF True this] "2.prems"(2) True show ?thesis by simp
  next
    case False
    let ?c = "heap s ! sourceCtx"
    obtain r1 s1 where step:
      "imagesToCopyFromRegistry X registryName registryConfig ?c s = (r1, s1)"
      by (cases "imagesToCopyFromRegistry X registryName registryConfig ?c s")
    from "2.prems"(1) False step obtain descs where r1: "r1 = Returns (Inr descs)"
      and rest: "registries X sourceCtx rest (descriptors @ descs) s1 = (Returns (Inr out), s')"
      by (auto split: outcome.splits sum.splits)
    from imagesToCopyFromRegistry_frame [OF step] False
    have h1: "heap s1 = heap s @ [overrideContext registryConfig ?c]" by simp
    have b1: "sourceCtx < length (heap s1)" using h1 "2.prems"(2) by simp
    have same: "heap s1 ! sourceCtx = ?c" using h1 "2.prems"(2) by (simp add: nth_append)
    from "2.IH"(2) [OF False step [symmetric] r1 refl rest b1]
    have "heap s' = heap s1 @ map (\<lambda>rc. overrideContext (snd rc) ?c)
                          (filter (\<lambda>rc. Images (snd rc) \<noteq> []) rest)"
      by (simp only: same)
    with False show ?thesis by (simp add: h1)
  qed
qed

lemma registries_per_registry:
  assumes whole: "registries X base (ra @ (name, cfg) # rb) [] s = (Returns (Inr out), s')"
    and b: "base < length (heap s)"
  shows "\<exists>dsa sa dsm sm dsb.
      registries X base ra [] s = (Returns (Inr dsa), sa)
    \<and> registries X base [(name, cfg)] [] sa = (Returns (Inr dsm), sm)
    \<and> out = dsa @ dsm @ dsb
    \<and> (\<forall>d\<in>set dsm. Context d = length (heap sa)
          \<and> heap s' ! Context d =
              (heap s ! base)
                \<lparr>DockerCertPath := CertDir cfg,
                 DockerDaemonCertPath := CertDir cfg,
                 DockerDaemonInsecureSkipTLSVerify := (skip (TLSVerify cfg) = OptionalBoolTrue),
                 DockerInsecureSkipTLSVerify := skip (TLSVerify cfg),
                 DockerAuthConfig := Some (Credentials cfg)\<rparr>)"
proof -
  obtain r1 sa where first: "registries X base ra [] s = (r1, sa)"
    by (cases "registries X base ra [] s")
  from whole first obtain dsa where r1: "r1 = Returns (Inr dsa)"
    and tail: "registries X base ((name, cfg) # rb) dsa sa = (Returns (Inr out), s')"
    by (auto simp: registries_append split: outcome.splits sum.splits)
  note first' = first [unfolded r1]
  from registries_frame [OF first'] b
  have ba: "base < length (heap sa)" and tka: "take (length (heap s)) (heap sa) = heap s" by auto
  have basea: "heap sa ! base = heap s ! base"
  proof -
    have "heap sa ! base = take (length (heap s)) (heap sa) ! base" using b by simp
    then show ?thesis by (simp only: tka)
  qed
  obtain r2 sm where mid: "registries X base [(name, cfg)] dsa sa = (r2, sm)"
    by (cases "registries X base [(name, cfg)] dsa sa")
  from tail mid registries_append [of X base "[(name, cfg)]" rb dsa sa]
  obtain dm where r2: "r2 = Returns (Inr dm)"
    and last: "registries X base rb dm sm = (Returns (Inr out), s')"
    by (auto split: outcome.splits sum.splits)
  note mid' = mid [unfolded r2]
  obtain r3 sm3 where mid0: "registries X base [(name, cfg)] [] sa = (r3, sm3)"
    by (cases "registries X base [(name, cfg)] [] sa")
  from mid' mid0 registries_acc [of X base "[(name, cfg)]" dsa sa]
  obtain dsm where r3: "r3 = Returns (Inr dsm)" and sm3: "sm3 = sm" and dm: "dm = dsa @ dsm"
    by (auto split: outcome.splits sum.splits)
  note mid0' = mid0 [unfolded r3 sm3]
  from registries_descs [OF mid0' ba]
  have dd: "\<forall>d\<in>set dsm. length (heap sa) \<le> Context d \<and> Context d < length (heap sm) \<and>
       heap sm ! Context d = overrideContext cfg (heap sa ! base)" by auto
  from registries_store [OF mid0' ba]
  have lm: "length (heap sm) \<le> length (heap sa) + 1" by simp
  from registries_frame [OF mid0'] have bm: "base < length (heap sm)" using ba by simp
  from registries_descs [OF last bm] obtain dsb where out: "out = dm @ dsb" by blast
  from registries_frame [OF last] have tkm: "take (length (heap sm)) (heap s') = heap sm" by simp
  have vals: "\<forall>d\<in>set dsm. Context d = length (heap sa)
          \<and> heap s' ! Context d = overrideContext cfg (heap s ! base)"
  proof
    fix d assume "d \<in> set dsm"
    with dd have r: "length (heap sa) \<le> Context d" "Context d < length (heap sm)"
      and v: "heap sm ! Context d = overrideContext cfg (heap sa ! base)" by auto
    have "heap s' ! Context d = take (length (heap sm)) (heap s') ! Context d" using r by simp
    then have "heap s' ! Context d = heap sm ! Context d" by (simp only: tkm)
    with v basea r lm
    show "Context d = length (heap sa)
          \<and> heap s' ! Context d = overrideContext cfg (heap s ! base)" by simp
  qed
  have out': "out = dsa @ dsm @ dsb" using out dm by simp
  have vals': "\<forall>d\<in>set dsm. Context d = length (heap sa)
          \<and> heap s' ! Context d =
              (heap s ! base)
                \<lparr>DockerCertPath := CertDir cfg,
                 DockerDaemonCertPath := CertDir cfg,
                 DockerDaemonInsecureSkipTLSVerify := (skip (TLSVerify cfg) = OptionalBoolTrue),
                 DockerInsecureSkipTLSVerify := skip (TLSVerify cfg),
                 DockerAuthConfig := Some (Credentials cfg)\<rparr>"
    using vals by (simp only: overrideContext_fields)
  from first' mid0' out' vals' show ?thesis by blast
qed

lemma imagesToCopyFromRegistry_fields:
  "imagesToCopyFromRegistry X name cfg c s = (Returns (Inr descs), s') \<and> d \<in> set descs \<longrightarrow>
     Context d = length (heap s)
     \<and> take (length (heap s)) (heap s') = heap s
     \<and> heap s' ! Context d =
          c\<lparr>DockerCertPath := CertDir cfg,
            DockerDaemonCertPath := CertDir cfg,
            DockerDaemonInsecureSkipTLSVerify := (skip (TLSVerify cfg) = OptionalBoolTrue),
            DockerInsecureSkipTLSVerify := skip (TLSVerify cfg),
            DockerAuthConfig := Some (Credentials cfg)\<rparr>"
proof
  assume a: "imagesToCopyFromRegistry X name cfg c s = (Returns (Inr descs), s') \<and> d \<in> set descs"
  then have run: "imagesToCopyFromRegistry X name cfg c s = (Returns (Inr descs), s')"
    and d: "d \<in> set descs" by auto
  from imagesToCopyFromRegistry_descs [OF run] d
  have cd: "Context d = length (heap s)" and ne: "Images cfg \<noteq> []" by auto
  from imagesToCopyFromRegistry_frame [OF run] ne
  have h: "heap s' = heap s @ [overrideContext cfg c]" by simp
  show "Context d = length (heap s)
     \<and> take (length (heap s)) (heap s') = heap s
     \<and> heap s' ! Context d =
          c\<lparr>DockerCertPath := CertDir cfg,
            DockerDaemonCertPath := CertDir cfg,
            DockerDaemonInsecureSkipTLSVerify := (skip (TLSVerify cfg) = OptionalBoolTrue),
            DockerInsecureSkipTLSVerify := skip (TLSVerify cfg),
            DockerAuthConfig := Some (Credentials cfg)\<rparr>"
    by (simp add: cd h overrideContext_fields)
qed

lemma imagesToCopy_yaml:
  "newSourceConfig X src s = Inr cfgs \<longrightarrow>
     imagesToCopy X src ''yaml'' base s = registries X base cfgs [] s"
  by (simp add: imagesToCopy_def docker_Transport_Name_def directory_Transport_Name_def)

lemma registries_store_fields:
  "registries X base rs [] s = (Returns (Inr out), s') \<and> base < length (heap s) \<longrightarrow>
        heap s' =
          heap s @
          map (\<lambda>rc. (heap s ! base)\<lparr>DockerCertPath := CertDir (snd rc),
                 DockerDaemonCertPath := CertDir (snd rc),
                 DockerDaemonInsecureSkipTLSVerify := (skip (TLSVerify (snd rc)) = OptionalBoolTrue),
                 DockerInsecureSkipTLSVerify := skip (TLSVerify (snd rc)),
                 DockerAuthConfig := Some (Credentials (snd rc))\<rparr>)
            (filter (\<lambda>rc. Images (snd rc) \<noteq> []) rs)"
proof
  assume "registries X base rs [] s = (Returns (Inr out), s') \<and> base < length (heap s)"
  then have "heap s' = heap s @ map (\<lambda>rc. overrideContext (snd rc) (heap s ! base))
                          (filter (\<lambda>rc. Images (snd rc) \<noteq> []) rs)"
    using registries_store by blast
  then show "heap s' =
          heap s @
          map (\<lambda>rc. (heap s ! base)\<lparr>DockerCertPath := CertDir (snd rc),
                 DockerDaemonCertPath := CertDir (snd rc),
                 DockerDaemonInsecureSkipTLSVerify := (skip (TLSVerify (snd rc)) = OptionalBoolTrue),
                 DockerInsecureSkipTLSVerify := skip (TLSVerify (snd rc)),
                 DockerAuthConfig := Some (Credentials (snd rc))\<rparr>)
            (filter (\<lambda>rc. Images (snd rc) \<noteq> []) rs)"
    by (simp only: overrideContext_fields)
qed

lemma registries_per_registry_fields:
  "registries X base (ra @ (name, cfg) # rb) [] s = (Returns (Inr out), s')
        \<and> base < length (heap s) \<longrightarrow>
        (\<exists>dsa sa dsm sm dsb.
           registries X base ra [] s = (Returns (Inr dsa), sa)
           \<and> registries X base [(name, cfg)] [] sa = (Returns (Inr dsm), sm)
           \<and> out = dsa @ dsm @ dsb
           \<and> (\<forall>d\<in>set dsm. Context d = length (heap sa)
                 \<and> heap s' ! Context d =
                     (heap s ! base)\<lparr>DockerCertPath := CertDir cfg,
                 DockerDaemonCertPath := CertDir cfg,
                 DockerDaemonInsecureSkipTLSVerify := (skip (TLSVerify cfg) = OptionalBoolTrue),
                 DockerInsecureSkipTLSVerify := skip (TLSVerify cfg),
                 DockerAuthConfig := Some (Credentials cfg)\<rparr>))"
  using registries_per_registry by blast

text \<open>
  Claim C2. Planning never writes to a context that existed before it, so the base
  context the run was given stays as it was. Every registry of the manifest that
  names an image gets a cell of its own, made by its call of
  \<open>imagesToCopyFromRegistry\<close>: the store after planning is the store before it
  followed by one context for each such registry, in the order of the manifest, and
  that context is the base context with the certificate directory, the two TLS
  settings and the credentials of that registry written over it and every other
  field as in the base. The descriptors planned for a registry all name the cell of
  that registry. Once a descriptor is planned its context keeps its value: neither
  the registries that follow nor the images that follow in the same registry
  change it.
\<close>

theorem contexts_copy_on_construct:
  "(imagesToCopy X src tr base s = (res, s') \<longrightarrow>
      take (length (heap s)) (heap s') = heap s
      \<and> (base < length (heap s) \<longrightarrow> heap s' ! base = heap s ! base))
   \<and> (registries X base2 (rs1 @ rs2) [] s2 = (Returns (Inr out2), s2') \<and> base2 < length (heap s2) \<longrightarrow>
        (\<exists>ds1 s1 ds2.
           registries X base2 rs1 [] s2 = (Returns (Inr ds1), s1) \<and> out2 = ds1 @ ds2
           \<and> (\<forall>d\<in>set ds1. Context d \<noteq> base2 \<and> heap s2' ! Context d = heap s1 ! Context d)
           \<and> (\<forall>d\<in>set out2. \<exists>cfg\<in>snd ` set (rs1 @ rs2).
                  heap s2' ! Context d = overrideContext cfg (heap s2 ! base2))))
   \<and> (imagesToCopyFromRegistry X name (cfg\<lparr>Images := es1 @ es2\<rparr>) c s3 = (Returns (Inr out3), s3') \<longrightarrow>
        (\<exists>ds1 s1 ds2.
           imagesToCopyFromRegistry X name (cfg\<lparr>Images := es1\<rparr>) c s3 = (Returns (Inr ds1), s1)
           \<and> out3 = ds1 @ ds2
           \<and> (\<forall>d\<in>set ds1. Context d = length (heap s3)
                 \<and> heap s3' ! Context d = heap s1 ! Context d)))
   \<and> (registries X base4 rs4 [] s4 = (Returns (Inr out4), s4') \<and> base4 < length (heap s4) \<longrightarrow>
        heap s4' =
          heap s4 @
          map (\<lambda>rc. (heap s4 ! base4)\<lparr>DockerCertPath := CertDir (snd rc),
                 DockerDaemonCertPath := CertDir (snd rc),
                 DockerDaemonInsecureSkipTLSVerify := (skip (TLSVerify (snd rc)) = OptionalBoolTrue),
                 DockerInsecureSkipTLSVerify := skip (TLSVerify (snd rc)),
                 DockerAuthConfig := Some (Credentials (snd rc))\<rparr>)
            (filter (\<lambda>rc. Images (snd rc) \<noteq> []) rs4))
   \<and> (registries X base5 (ra @ (name5, cfg5) # rb) [] s5 = (Returns (Inr out5), s5')
        \<and> base5 < length (heap s5) \<longrightarrow>
        (\<exists>dsa sa dsm sm dsb.
           registries X base5 ra [] s5 = (Returns (Inr dsa), sa)
           \<and> registries X base5 [(name5, cfg5)] [] sa = (Returns (Inr dsm), sm)
           \<and> out5 = dsa @ dsm @ dsb
           \<and> (\<forall>d\<in>set dsm. Context d = length (heap sa)
                 \<and> heap s5' ! Context d =
                     (heap s5 ! base5)\<lparr>DockerCertPath := CertDir cfg5,
                 DockerDaemonCertPath := CertDir cfg5,
                 DockerDaemonInsecureSkipTLSVerify := (skip (TLSVerify cfg5) = OptionalBoolTrue),
                 DockerInsecureSkipTLSVerify := skip (TLSVerify cfg5),
                 DockerAuthConfig := Some (Credentials cfg5)\<rparr>)))
   \<and> (imagesToCopyFromRegistry X name6 cfg6 c6 s6 = (Returns (Inr descs6), s6') \<and> d6 \<in> set descs6 \<longrightarrow>
        Context d6 = length (heap s6)
        \<and> take (length (heap s6)) (heap s6') = heap s6
        \<and> heap s6' ! Context d6 =
             c6\<lparr>DockerCertPath := CertDir cfg6,
                 DockerDaemonCertPath := CertDir cfg6,
                 DockerDaemonInsecureSkipTLSVerify := (skip (TLSVerify cfg6) = OptionalBoolTrue),
                 DockerInsecureSkipTLSVerify := skip (TLSVerify cfg6),
                 DockerAuthConfig := Some (Credentials cfg6)\<rparr>)
   \<and> (newSourceConfig X src7 s7 = Inr cfgs7 \<longrightarrow>
        imagesToCopy X src7 ''yaml'' base7 s7 = registries X base7 cfgs7 [] s7)"
  by (intro conjI)
     (rule contexts_frozen [THEN conjunct1],
      rule contexts_frozen [THEN conjunct2, THEN conjunct1],
      rule contexts_frozen [THEN conjunct2, THEN conjunct2],
      rule registries_store_fields,
      rule registries_per_registry_fields,
      rule imagesToCopyFromRegistry_fields,
      rule imagesToCopy_yaml)

theorem contexts_copy_on_construct_witness:
  "fst (imagesToCopy
          (exampleExternals [''v1''] File
             [(''registry.example.com'', registryA), (''localhost:5000'', registryB)])
          ''sync.yml'' ''yaml'' 0 baseState)
     = Returns (Inr
        [\<lparr>DirBasePath = [], TaggedImages = [DockerReference ''registry.example.com/repo:v1''], Context = 1\<rparr>,
         \<lparr>DirBasePath = [], TaggedImages = [DockerReference ''registry.example.com/tool:v1''], Context = 1\<rparr>,
         \<lparr>DirBasePath = [], TaggedImages = [DockerReference ''localhost:5000/app:v1''], Context = 2\<rparr>])
   \<and> heap (snd (imagesToCopy
          (exampleExternals [''v1''] File
             [(''registry.example.com'', registryA), (''localhost:5000'', registryB)])
          ''sync.yml'' ''yaml'' 0 baseState))
     = [baseContext,
        \<lparr>AuthFilePath = ''/run/auth.json'', RegistriesDirPath = ''/etc/registries.d'',
         DockerRegistryUserAgent = ''skopeo'',
         DockerCertPath = ''/certs/a'', DockerDaemonCertPath = ''/certs/a'',
         DockerDaemonInsecureSkipTLSVerify = False,
         DockerInsecureSkipTLSVerify = OptionalBoolUndefined,
         DockerAuthConfig = Some \<lparr>Username = ''alice'', Password = ''secret-a''\<rparr>\<rparr>,
        \<lparr>AuthFilePath = ''/run/auth.json'', RegistriesDirPath = ''/etc/registries.d'',
         DockerRegistryUserAgent = ''skopeo'',
         DockerCertPath = ''/certs/b'', DockerDaemonCertPath = ''/certs/b'',
         DockerDaemonInsecureSkipTLSVerify = True,
         DockerInsecureSkipTLSVerify = OptionalBoolTrue,
         DockerAuthConfig = Some \<lparr>Username = ''bob'', Password = ''secret-b''\<rparr>\<rparr>]
   \<and> heap (snd (imagesToCopy
          (exampleExternals [''v1''] File
             [(''registry.example.com'', registryA), (''localhost:5000'', registryB)])
          ''sync.yml'' ''yaml'' 0 baseState)) ! 0 = heap baseState ! 0
   \<and> heap (snd (imagesToCopyFromRegistry
          (exampleExternals [''v1''] File
             [(''registry.example.com'', registryA), (''localhost:5000'', registryB)])
          ''registry.example.com'' registryA baseContext baseState)) ! 1
     = \<lparr>AuthFilePath = ''/run/auth.json'', RegistriesDirPath = ''/etc/registries.d'',
         DockerRegistryUserAgent = ''skopeo'',
         DockerCertPath = ''/certs/a'', DockerDaemonCertPath = ''/certs/a'',
         DockerDaemonInsecureSkipTLSVerify = False,
         DockerInsecureSkipTLSVerify = OptionalBoolUndefined,
         DockerAuthConfig = Some \<lparr>Username = ''alice'', Password = ''secret-a''\<rparr>\<rparr>
   \<and> (\<exists>dsa sa dsm sm dsb.
         registries
           (exampleExternals [''v1''] File
              [(''registry.example.com'', registryA), (''localhost:5000'', registryB)])
           0 [(''registry.example.com'', registryA)] [] baseState = (Returns (Inr dsa), sa)
         \<and> registries
           (exampleExternals [''v1''] File
              [(''registry.example.com'', registryA), (''localhost:5000'', registryB)])
           0 [(''localhost:5000'', registryB)] [] sa = (Returns (Inr dsm), sm)
         \<and> [\<lparr>DirBasePath = [], TaggedImages = [DockerReference ''registry.example.com/repo:v1''], Context = 1\<rparr>,
             \<lparr>DirBasePath = [], TaggedImages = [DockerReference ''registry.example.com/tool:v1''], Context = 1\<rparr>,
             \<lparr>DirBasePath = [], TaggedImages = [DockerReference ''localhost:5000/app:v1''], Context = 2\<rparr>]
            = dsa @ dsm @ dsb)
   \<and> (\<exists>ds1 s1 ds2.
         registries
           (exampleExternals [''v1''] File
              [(''registry.example.com'', registryA), (''localhost:5000'', registryB)])
           0 [(''registry.example.com'', registryA)] [] baseState = (Returns (Inr ds1), s1)
         \<and> [\<lparr>DirBasePath = [], TaggedImages = [DockerReference ''registry.example.com/repo:v1''], Context = 1\<rparr>,
             \<lparr>DirBasePath = [], TaggedImages = [DockerReference ''registry.example.com/tool:v1''], Context = 1\<rparr>,
             \<lparr>DirBasePath = [], TaggedImages = [DockerReference ''localhost:5000/app:v1''], Context = 2\<rparr>]
            = ds1 @ ds2)
   \<and> (\<exists>ds1 s1 ds2.
         imagesToCopyFromRegistry
           (exampleExternals [''v1''] File
              [(''registry.example.com'', registryA), (''localhost:5000'', registryB)])
           ''registry.example.com'' (registryA\<lparr>Images := [(''repo'', NilTags)]\<rparr>)
           baseContext baseState = (Returns (Inr ds1), s1)
         \<and> [\<lparr>DirBasePath = [], TaggedImages = [DockerReference ''registry.example.com/repo:v1''], Context = 1\<rparr>,
             \<lparr>DirBasePath = [], TaggedImages = [DockerReference ''registry.example.com/tool:v1''], Context = 1\<rparr>]
            = ds1 @ ds2)"
proof -
  let ?rA = "(''registry.example.com'', registryA)"
  let ?rB = "(''localhost:5000'', registryB)"
  let ?Y = "exampleExternals [''v1''] File [?rA, ?rB]"
  let ?da = "\<lparr>DirBasePath = [], TaggedImages = [DockerReference ''registry.example.com/repo:v1''], Context = 1\<rparr>"
  let ?db = "\<lparr>DirBasePath = [], TaggedImages = [DockerReference ''registry.example.com/tool:v1''], Context = 1\<rparr>"
  let ?dc = "\<lparr>DirBasePath = [], TaggedImages = [DockerReference ''localhost:5000/app:v1''], Context = 2\<rparr>"
  let ?ctxA = "\<lparr>AuthFilePath = ''/run/auth.json'', RegistriesDirPath = ''/etc/registries.d'',
         DockerRegistryUserAgent = ''skopeo'',
         DockerCertPath = ''/certs/a'', DockerDaemonCertPath = ''/certs/a'',
         DockerDaemonInsecureSkipTLSVerify = False,
         DockerInsecureSkipTLSVerify = OptionalBoolUndefined,
         DockerAuthConfig = Some \<lparr>Username = ''alice'', Password = ''secret-a''\<rparr>\<rparr>"
  let ?ctxB = "\<lparr>AuthFilePath = ''/run/auth.json'', RegistriesDirPath = ''/etc/registries.d'',
         DockerRegistryUserAgent = ''skopeo'',
         DockerCertPath = ''/certs/b'', DockerDaemonCertPath = ''/certs/b'',
         DockerDaemonInsecureSkipTLSVerify = True,
         DockerInsecureSkipTLSVerify = OptionalBoolTrue,
         DockerAuthConfig = Some \<lparr>Username = ''bob'', Password = ''secret-b''\<rparr>\<rparr>"
  let ?plan = "imagesToCopy ?Y ''sync.yml'' ''yaml'' 0 baseState"
  let ?regsTwo = "registries ?Y 0 ([?rA] @ [?rB]) [] baseState"
  let ?regsAll = "registries ?Y 0 [?rA, ?rB] [] baseState"
  let ?regsMid = "registries ?Y 0 ([?rA] @ (''localhost:5000'', registryB) # []) [] baseState"
  let ?regSplit = "imagesToCopyFromRegistry ?Y ''registry.example.com''
      (registryA\<lparr>Images := [(''repo'', NilTags)] @ [(''tool'', NilTags)]\<rparr>) baseContext baseState"
  let ?regA = "imagesToCopyFromRegistry ?Y ''registry.example.com'' registryA baseContext baseState"
  note T = contexts_copy_on_construct [where X = ?Y
      and src = "''sync.yml''" and tr = "''yaml''" and base = 0 and s = baseState
      and res = "fst ?plan" and s' = "snd ?plan"
      and ?base2.0 = 0 and ?rs1.0 = "[?rA]" and ?rs2.0 = "[?rB]" and ?s2.0 = baseState
      and ?out2.0 = "[?da, ?db, ?dc]" and ?s2' = "snd ?regsTwo"
      and name = "''registry.example.com''" and cfg = registryA
      and ?es1.0 = "[(''repo'', NilTags)]" and ?es2.0 = "[(''tool'', NilTags)]"
      and c = baseContext and ?s3.0 = baseState and ?out3.0 = "[?da, ?db]" and ?s3' = "snd ?regSplit"
      and ?base4.0 = 0 and ?rs4.0 = "[?rA, ?rB]" and ?s4.0 = baseState
      and ?out4.0 = "[?da, ?db, ?dc]" and ?s4' = "snd ?regsAll"
      and ?base5.0 = 0 and ra = "[?rA]" and ?name5.0 = "''localhost:5000''" and ?cfg5.0 = registryB
      and rb = "[]" and ?s5.0 = baseState and ?out5.0 = "[?da, ?db, ?dc]" and ?s5' = "snd ?regsMid"
      and ?name6.0 = "''registry.example.com''" and ?cfg6.0 = registryA and ?c6.0 = baseContext
      and ?s6.0 = baseState and ?descs6.0 = "[?da, ?db]" and ?s6' = "snd ?regA" and ?d6.0 = ?db
      and ?src7.0 = "''sync.yml''" and ?s7.0 = baseState and ?cfgs7.0 = "[?rA, ?rB]" and ?base7.0 = 0]
  note T1 = T [THEN conjunct1]
  note T2 = T [THEN conjunct2, THEN conjunct1]
  note T3 = T [THEN conjunct2, THEN conjunct2, THEN conjunct1]
  note T4 = T [THEN conjunct2, THEN conjunct2, THEN conjunct2, THEN conjunct1]
  note T5 = T [THEN conjunct2, THEN conjunct2, THEN conjunct2, THEN conjunct2, THEN conjunct1]
  note T6 = T [THEN conjunct2, THEN conjunct2, THEN conjunct2, THEN conjunct2, THEN conjunct2,
      THEN conjunct1]
  note T7 = T [THEN conjunct2, THEN conjunct2, THEN conjunct2, THEN conjunct2, THEN conjunct2,
      THEN conjunct2]
  have b: "0 < length (heap baseState)" by (simp add: baseState_def)
  have cfgs: "newSourceConfig ?Y ''sync.yml'' baseState = Inr [?rA, ?rB]"
    by (simp add: newSourceConfig_def exampleExternals_def)
  note yaml = T7 [THEN mp, OF cfgs]
  have eAll: "fst ?regsAll = Returns (Inr [?da, ?db, ?dc])" by code_simp
  then have hAll: "?regsAll = (Returns (Inr [?da, ?db, ?dc]), snd ?regsAll)"
    by (metis prod.collapse)
  have eTwo: "fst ?regsTwo = Returns (Inr [?da, ?db, ?dc])" by code_simp
  then have hTwo: "?regsTwo = (Returns (Inr [?da, ?db, ?dc]), snd ?regsTwo)"
    by (metis prod.collapse)
  have eMid: "fst ?regsMid = Returns (Inr [?da, ?db, ?dc])" by code_simp
  then have hMid: "?regsMid = (Returns (Inr [?da, ?db, ?dc]), snd ?regsMid)"
    by (metis prod.collapse)
  have eSplit: "fst ?regSplit = Returns (Inr [?da, ?db])" by code_simp
  then have hSplit: "?regSplit = (Returns (Inr [?da, ?db]), snd ?regSplit)"
    by (metis prod.collapse)
  have eA: "fst ?regA = Returns (Inr [?da, ?db])" by code_simp
  then have hA: "?regA = (Returns (Inr [?da, ?db]), snd ?regA)"
    by (metis prod.collapse)
  have w1: "fst ?plan = Returns (Inr [?da, ?db, ?dc])"
    by (simp only: yaml eAll)
  note store = T4 [THEN mp, OF conjI, OF hAll b]
  have ev: "heap baseState @
      map (\<lambda>rc. (heap baseState ! 0)
                 \<lparr>DockerCertPath := CertDir (snd rc),
                  DockerDaemonCertPath := CertDir (snd rc),
                  DockerDaemonInsecureSkipTLSVerify := (skip (TLSVerify (snd rc)) = OptionalBoolTrue),
                  DockerInsecureSkipTLSVerify := skip (TLSVerify (snd rc)),
                  DockerAuthConfig := Some (Credentials (snd rc))\<rparr>)
        (filter (\<lambda>rc. Images (snd rc) \<noteq> []) [?rA, ?rB])
      = [baseContext, ?ctxA, ?ctxB]"
    by (simp add: baseState_def baseContext_def registryA_def registryB_def)
  have w2: "heap (snd ?plan) = [baseContext, ?ctxA, ?ctxB]"
    by (simp only: yaml store ev)
  have pc: "?plan = (fst ?plan, snd ?plan)" by simp
  from T1 [THEN mp, OF pc] b have w0: "heap (snd ?plan) ! 0 = heap baseState ! 0" by blast
  have dm: "?db \<in> set [?da, ?db]" by simp
  note cellA = T6 [THEN mp, OF conjI, OF hA dm, THEN conjunct2, THEN conjunct2]
  have evA: "baseContext
                 \<lparr>DockerCertPath := CertDir registryA,
                  DockerDaemonCertPath := CertDir registryA,
                  DockerDaemonInsecureSkipTLSVerify := (skip (TLSVerify registryA) = OptionalBoolTrue),
                  DockerInsecureSkipTLSVerify := skip (TLSVerify registryA),
                  DockerAuthConfig := Some (Credentials registryA)\<rparr> = ?ctxA"
    by (simp add: baseContext_def registryA_def)
  have c1: "Context ?db = 1" by simp
  have w6: "heap (snd ?regA) ! 1 = ?ctxA"
    using cellA by (simp only: c1 evA)
  from T5 [THEN mp, OF conjI, OF hMid b]
  have w5: "\<exists>dsa sa dsm sm dsb.
         registries ?Y 0 [?rA] [] baseState = (Returns (Inr dsa), sa)
         \<and> registries ?Y 0 [?rB] [] sa = (Returns (Inr dsm), sm)
         \<and> [?da, ?db, ?dc] = dsa @ dsm @ dsb"
    by blast
  from T2 [THEN mp, OF conjI, OF hTwo b]
  have w3: "\<exists>ds1 s1 ds2.
         registries ?Y 0 [?rA] [] baseState = (Returns (Inr ds1), s1) \<and> [?da, ?db, ?dc] = ds1 @ ds2"
    by blast
  from T3 [THEN mp, OF hSplit]
  have w4: "\<exists>ds1 s1 ds2.
         imagesToCopyFromRegistry ?Y ''registry.example.com''
           (registryA\<lparr>Images := [(''repo'', NilTags)]\<rparr>) baseContext baseState
           = (Returns (Inr ds1), s1) \<and> [?da, ?db] = ds1 @ ds2"
    by blast
  from w1 w2 w0 w6 w5 w3 w4 show ?thesis by (intro conjI)
qed

subsection \<open>A tag selector that does not compile\<close>

lemma filterReferences_nil:
  "filterReferences None refs = Returns out \<Longrightarrow> refs = [] \<and> out = []"
  by (cases refs) (auto split: outcome.splits)

text \<open>
  Claim C1. The manifest \<open>registry.example.com: {images: {repo: "(", tool: null}}\<close>,
  with a registry that lists the tag \<open>v1\<close> for every repository. The pattern \<open>(\<close>
  does not compile. The iteration for \<open>repo\<close> logs the error and goes on: it lists
  the tags and calls \<open>Match\<close> through the nil pointer, which panics. Planning of the
  sibling \<open>tool\<close> is never reached, and the panic ends \<open>imagesToCopy\<close> and \<open>run\<close>.
\<close>

theorem invalid_regex_nil_dereference:
  "regexp_Compile (exampleExternals [''v1''] File []) ''('' = Inl ''error parsing regexp: missing closing )''
   \<and> fst (registryImage (exampleExternals [''v1''] File []) ''registry.example.com''
          (exampleRegistry [(''repo'', StringTags ''(''), (''tool'', NilTags)]) 0
          (''repo'', StringTags ''('') (exampleState []))
       = Panics NilPointerDereference
   \<and> fst (imagesToCopy
          (exampleExternals [''v1''] File
             [(''registry.example.com'', exampleRegistry [(''repo'', StringTags ''(''), (''tool'', NilTags)])])
          ''sync.yml'' ''yaml'' 0 (exampleState []))
       = Panics NilPointerDereference
   \<and> fst (run
          (exampleExternals [''v1''] File
             [(''registry.example.com'', exampleRegistry [(''repo'', StringTags ''(''), (''tool'', NilTags)])])
          (exampleOptions ''yaml'' ''dir'') [''sync.yml'', ''/out''] (exampleState []))
       = Panics NilPointerDereference"
proof (intro conjI)
  show "regexp_Compile (exampleExternals [''v1''] File []) ''('' = Inl ''error parsing regexp: missing closing )''"
    by (simp add: exampleExternals_def exampleCompile_def)
  show "fst (registryImage (exampleExternals [''v1''] File []) ''registry.example.com''
          (exampleRegistry [(''repo'', StringTags ''(''), (''tool'', NilTags)]) 0
          (''repo'', StringTags ''('') (exampleState []))
       = Panics NilPointerDereference"
    by code_simp
  show "fst (imagesToCopy
          (exampleExternals [''v1''] File
             [(''registry.example.com'', exampleRegistry [(''repo'', StringTags ''(''), (''tool'', NilTags)])])
          ''sync.yml'' ''yaml'' 0 (exampleState []))
       = Panics NilPointerDereference"
    by code_simp
  show "fst (run
          (exampleExternals [''v1''] File
             [(''registry.example.com'', exampleRegistry [(''repo'', StringTags ''(''), (''tool'', NilTags)])])
          (exampleOptions ''yaml'' ''dir'') [''sync.yml'', ''/out''] (exampleState []))
       = Panics NilPointerDereference"
    by code_simp
qed

subsection \<open>The piece of the reference that the regular expression is matched on\<close>

lemma strings_Split_no_sep: "sep \<notin> set str \<Longrightarrow> strings_Split str sep = [str]"
  by (induction str) auto

lemma strings_Split_append:
  "sep \<notin> set pre \<Longrightarrow> strings_Split (pre @ sep # rest) sep = pre # strings_Split rest sep"
  by (induction pre) auto

lemma dropWhile_to_sep:
  "sep \<notin> set pre \<Longrightarrow> dropWhile (\<lambda>c. c \<noteq> sep) (pre @ sep # rest) = sep # rest"
  by (induction pre) auto

lemma matchedPiece_single_colon:
  "CHR '':'' \<notin> set name \<Longrightarrow> CHR '':'' \<notin> set tag \<Longrightarrow>
     matchedPiece (DockerReference (name @ '':'' @ tag)) = Returns tag
     \<and> tagComponent_spec (name @ '':'' @ tag) = tag"
  by (simp add: matchedPiece_def strings_Split_append strings_Split_no_sep tagComponent_spec_def
      dropWhile_to_sep)

lemma filterReferences_single_colon:
  assumes "\<forall>r\<in>set refs. \<exists>name tag. r = DockerReference (name @ '':'' @ tag)
             \<and> CHR '':'' \<notin> set name \<and> CHR '':'' \<notin> set tag"
  shows "filterReferences (Some re) refs =
           Returns (filter (\<lambda>r. case r of DockerReference str \<Rightarrow> re (tagComponent_spec str)
                                   | DirectoryReference p \<Rightarrow> False) refs)"
  using assms
proof (induction refs)
  case Nil
  then show ?case by simp
next
  case (Cons r refs)
  then obtain name tag where r: "r = DockerReference (name @ '':'' @ tag)"
    and n: "CHR '':'' \<notin> set name" and t: "CHR '':'' \<notin> set tag" by auto
  from matchedPiece_single_colon [OF n t]
  have m: "matchedPiece (DockerReference (name @ CHR '':'' # tag)) = Returns tag"
    and c: "tagComponent_spec (name @ CHR '':'' # tag) = tag"
    by simp_all
  from Cons have ih: "filterReferences (Some re) refs =
           Returns (filter (\<lambda>r. case r of DockerReference str \<Rightarrow> re (tagComponent_spec str)
                                   | DirectoryReference p \<Rightarrow> False) refs)" by simp
  show ?case by (simp add: r m c ih)
qed

text \<open>
  Claim C3. The manifest \<open>localhost:5000: {images: {repo: "v1$"}}\<close>, with a registry
  that lists the tag \<open>v1\<close>. The reference prints as \<open>localhost:5000/repo:v1\<close>; the
  filter matches the pattern on the piece between the first and the second colon,
  \<open>5000/repo\<close>, which is neither the tag \<open>v1\<close> nor what follows the first colon.
  The pattern matches both of these and not the piece, so the only discovered
  reference is dropped and nothing is planned. With the pattern \<open>^50\<close>, which
  matches the piece and not the tag, the reference is kept.
\<close>

theorem regex_filter_registry_port:
  "matchedPiece (DockerReference ''localhost:5000/repo:v1'') = Returns ''5000/repo''
   \<and> tagComponent_spec ''localhost:5000/repo:v1'' = ''5000/repo:v1''
   \<and> (case regexp_Compile (exampleExternals [''v1''] File []) ''v1$'' of
         Inl err \<Rightarrow> False
       | Inr re \<Rightarrow> re ''v1'' \<and> re ''5000/repo:v1'' \<and> \<not> re ''5000/repo'')
   \<and> imagesToCopyFromRepo (exampleExternals [''v1''] File []) (DockerReference ''localhost:5000/repo'')
         ''//localhost:5000/repo'' 0 (exampleState [])
       = (Inr [DockerReference ''localhost:5000/repo:v1''], logf InfoLevel ''Getting tags'' (exampleState []))
   \<and> fst (registryImage (exampleExternals [''v1''] File []) ''localhost:5000''
          (exampleRegistry [(''repo'', StringTags ''v1$'')]) 0
          (''repo'', StringTags ''v1$'') (exampleState []))
       = Returns None
   \<and> fst (imagesToCopy
          (exampleExternals [''v1''] File
             [(''localhost:5000'', exampleRegistry [(''repo'', StringTags ''v1$'')])])
          ''sync.yml'' ''yaml'' 0 (exampleState []))
       = Returns (Inr [])
   \<and> fst (imagesToCopy
          (exampleExternals [''v1''] File
             [(''localhost:5000'', exampleRegistry [(''repo'', StringTags ''^50'')])])
          ''sync.yml'' ''yaml'' 0 (exampleState []))
       = Returns (Inr [\<lparr>DirBasePath = [],
            TaggedImages = [DockerReference ''localhost:5000/repo:v1''], Context = 1\<rparr>])"
proof (intro conjI)
  show "matchedPiece (DockerReference ''localhost:5000/repo:v1'') = Returns ''5000/repo''"
    by code_simp
  show "tagComponent_spec ''localhost:5000/repo:v1'' = ''5000/repo:v1''"
    by code_simp
  show "case regexp_Compile (exampleExternals [''v1''] File []) ''v1$'' of
         Inl err \<Rightarrow> False
       | Inr re \<Rightarrow> re ''v1'' \<and> re ''5000/repo:v1'' \<and> \<not> re ''5000/repo''"
    by (simp add: exampleExternals_def exampleCompile_def)
  show "imagesToCopyFromRepo (exampleExternals [''v1''] File []) (DockerReference ''localhost:5000/repo'')
         ''//localhost:5000/repo'' 0 (exampleState [])
       = (Inr [DockerReference ''localhost:5000/repo:v1''], logf InfoLevel ''Getting tags'' (exampleState []))"
    by code_simp
  show "fst (registryImage (exampleExternals [''v1''] File []) ''localhost:5000''
          (exampleRegistry [(''repo'', StringTags ''v1$'')]) 0
          (''repo'', StringTags ''v1$'') (exampleState []))
       = Returns None"
    by code_simp
  show "fst (imagesToCopy
          (exampleExternals [''v1''] File
             [(''localhost:5000'', exampleRegistry [(''repo'', StringTags ''v1$'')])])
          ''sync.yml'' ''yaml'' 0 (exampleState []))
       = Returns (Inr [])"
    by code_simp
  show "fst (imagesToCopy
          (exampleExternals [''v1''] File
             [(''localhost:5000'', exampleRegistry [(''repo'', StringTags ''^50'')])])
          ''sync.yml'' ''yaml'' 0 (exampleState []))
       = Returns (Inr [\<lparr>DirBasePath = [],
            TaggedImages = [DockerReference ''localhost:5000/repo:v1''], Context = 1\<rparr>])"
    by code_simp
qed

subsection \<open>Markers below a marker\<close>

text \<open>
  Claim C7. The tree \<open>/images\<close> with the files \<open>/images/a/manifest.json\<close> and
  \<open>/images/manifest.json\<close>. The walk visits the entries of \<open>/images\<close> in lexical
  order, so it descends into \<open>a\<close> before it meets the marker of \<open>/images\<close> itself,
  and yields a reference for \<open>/images/a\<close>, which lies beneath the image
  \<open>/images\<close>, as well as one for \<open>/images\<close>. A directory \<open>z\<close>, which sorts after
  the marker, is not visited.
\<close>

theorem walk_nested_marker:
  "imagesToCopyFromDir
      (exampleExternals []
         (Dir [(''a'', Dir [(''manifest.json'', File)]), (''manifest.json'', File)]) [])
      ''/images'' (exampleState [''/images''])
     = Inr [DirectoryReference ''/images/a'', DirectoryReference ''/images'']
   \<and> imagesToCopyFromDir
      (exampleExternals []
         (Dir [(''manifest.json'', File), (''z'', Dir [(''manifest.json'', File)])]) [])
      ''/images'' (exampleState [''/images''])
     = Inr [DirectoryReference ''/images'']
   \<and> fst (imagesToCopy
      (exampleExternals []
         (Dir [(''a'', Dir [(''manifest.json'', File)]), (''manifest.json'', File)]) [])
      ''/images'' ''dir'' 0 (exampleState [''/images'']))
     = Returns (Inr [\<lparr>DirBasePath = ''/images'',
          TaggedImages = [DirectoryReference ''/images/a'', DirectoryReference ''/images''],
          Context = 0\<rparr>])"
proof (intro conjI)
  show "imagesToCopyFromDir
      (exampleExternals []
         (Dir [(''a'', Dir [(''manifest.json'', File)]), (''manifest.json'', File)]) [])
      ''/images'' (exampleState [''/images''])
     = Inr [DirectoryReference ''/images/a'', DirectoryReference ''/images'']"
    by code_simp
  show "imagesToCopyFromDir
      (exampleExternals []
         (Dir [(''manifest.json'', File), (''z'', Dir [(''manifest.json'', File)])]) [])
      ''/images'' (exampleState [''/images''])
     = Inr [DirectoryReference ''/images'']"
    by code_simp
  show "fst (imagesToCopy
      (exampleExternals []
         (Dir [(''a'', Dir [(''manifest.json'', File)]), (''manifest.json'', File)]) [])
      ''/images'' ''dir'' 0 (exampleState [''/images'']))
     = Returns (Inr [\<lparr>DirBasePath = ''/images'',
          TaggedImages = [DirectoryReference ''/images/a'', DirectoryReference ''/images''],
          Context = 0\<rparr>])"
    by code_simp
qed

subsection \<open>Explicit tag lists\<close>

lemma coerceTags_fst: "fst (coerceTags X vs s) = map (fmt_v X) (filter isScalar vs)"
  by (induction X vs s rule: coerceTags.induct) (auto split: prod.splits)

lemma coerceTags_reports:
  "length (filter (\<lambda>e. e = (ErrorLevel, ''Elements can only be strings if they are of type array''))
             (logs (snd (coerceTags X vs s))))
   = length (filter (\<lambda>e. e = (ErrorLevel, ''Elements can only be strings if they are of type array''))
             (logs s))
     + length (filter (\<lambda>v. \<not> isScalar v) vs)"
  by (induction X vs s rule: coerceTags.induct) (auto simp: logf_def split: prod.splits)

lemma listedReferences_refs:
  "listedReferences X repoName tagList s = (refs, s') \<Longrightarrow>
     refs = concat (map (referenceOf X repoName) tagList)"
  by (induction tagList arbitrary: s refs s')
     (auto simp: referenceOf_def split: sum.splits prod.splits)

lemma listedReferences_fst:
  "fst (listedReferences X repoName tagList s) = concat (map (referenceOf X repoName) tagList)"
  by (cases "listedReferences X repoName tagList s") (auto dest: listedReferences_refs)

lemma length_referenceOf:
  "length (concat (map (referenceOf X repoName) tagList)) = length (filter (validTag X repoName) tagList)"
  by (induction tagList) (auto simp: referenceOf_def validTag_def split: sum.splits)

lemma queryRepo_fst_cong:
  "world s = world t \<Longrightarrow> heap s = heap t \<Longrightarrow>
     fst (queryRepo X repoName a s) = fst (queryRepo X repoName a t)"
  by (simp add: queryRepo_def imagesToCopyFromRepo_def getImageTags_def Let_def
      split: sum.splits listError.splits prod.splits)

lemma appendDescriptor_fst:
  "fst (appendDescriptor a refs s) =
     (if refs = [] then None else Some \<lparr>DirBasePath = [], TaggedImages = refs, Context = a\<rparr>)"
  by (simp add: appendDescriptor_def)

lemma registryImage_no_scalar:
  assumes "filter isScalar vs = []"
  shows "fst (registryImage X registryName cfg a (imageName, InterfaceSlice vs) s)
       = fst (registryImage X registryName cfg a (imageName, NilTags) s)"
proof -
  let ?repoName = "''//'' @ path_Join [registryName, imageName]"
  let ?s1 = "(logf InfoLevel ''Processing repo'' s)
      \<lparr>heap := (heap (logf InfoLevel ''Processing repo'' s))
          [a := overrideContext cfg (heap (logf InfoLevel ''Processing repo'' s) ! a)]\<rparr>"
  obtain tagList s2 where c: "coerceTags X vs ?s1 = (tagList, s2)"
    by (cases "coerceTags X vs ?s1")
  from c coerceTags_fst [of X vs ?s1] assms have t: "tagList = []" by simp
  from coerceTags_frame [OF c] have fr: "world s2 = world ?s1" "heap s2 = heap ?s1" by auto
  have q: "fst (queryRepo X ?repoName a s2) = fst (queryRepo X ?repoName a ?s1)"
    by (rule queryRepo_fst_cong [OF fr])
  obtain o2 u2 where q2: "queryRepo X ?repoName a s2 = (o2, u2)"
    by (cases "queryRepo X ?repoName a s2")
  obtain o1 u1 where q1: "queryRepo X ?repoName a ?s1 = (o1, u1)"
    by (cases "queryRepo X ?repoName a ?s1")
  from q q1 q2 have same: "o2 = o1" by simp
  have l: "fst (registryImage X registryName cfg a (imageName, InterfaceSlice vs) s)
      = (case o2 of None \<Rightarrow> Returns None | Some refs \<Rightarrow> Returns (fst (appendDescriptor a refs u2)))"
    using c t q2 by (simp add: registryImage_def Let_def split: option.splits prod.splits)
  have r: "fst (registryImage X registryName cfg a (imageName, NilTags) s)
      = (case o1 of None \<Rightarrow> Returns None | Some refs \<Rightarrow> Returns (fst (appendDescriptor a refs u1)))"
    using q1 by (simp add: registryImage_def Let_def split: option.splits prod.splits)
  show ?thesis unfolding l r same by (simp add: appendDescriptor_fst split: option.splits)
qed

text \<open>
  Claim C4, as amended. For a decoded sequence \<open>vs\<close>: the tag list is the scalar
  elements of \<open>vs\<close>, printed, in the order of \<open>vs\<close>, and every other element is
  reported once and passed over. The references made of a tag list are those of its
  tags that parse, in order, and they are as many as the valid tags. When \<open>vs\<close> has
  a scalar element, these references are what is planned for the image (nothing,
  when there is none). When \<open>vs\<close> has no scalar element, the image is planned like
  one with no selector.
\<close>

theorem explicit_tag_list:
  "fst (coerceTags X vs s) = map (fmt_v X) (filter isScalar vs)
   \<and> length (filter (\<lambda>e. e = (ErrorLevel, ''Elements can only be strings if they are of type array''))
             (logs (snd (coerceTags X vs s))))
     = length (filter (\<lambda>e. e = (ErrorLevel, ''Elements can only be strings if they are of type array''))
             (logs s))
       + length (filter (\<lambda>v. \<not> isScalar v) vs)
   \<and> fst (listedReferences X repoName tagList s) = concat (map (referenceOf X repoName) tagList)
   \<and> length (concat (map (referenceOf X repoName) tagList))
     = length (filter (validTag X repoName) tagList)
   \<and> (filter isScalar vs \<noteq> [] \<longrightarrow>
        fst (registryImage X registryName cfg a (imageName, InterfaceSlice vs) s) =
          Returns
            (let refs = concat (map (referenceOf X (''//'' @ path_Join [registryName, imageName]))
                                  (map (fmt_v X) (filter isScalar vs)))
             in if refs = [] then None
                else Some \<lparr>DirBasePath = [], TaggedImages = refs, Context = a\<rparr>))
   \<and> (filter isScalar vs' = [] \<longrightarrow>
        fst (registryImage X registryName cfg a (imageName, InterfaceSlice vs') s)
          = fst (registryImage X registryName cfg a (imageName, NilTags) s))"
proof (intro conjI impI)
  show "fst (coerceTags X vs s) = map (fmt_v X) (filter isScalar vs)"
    by (rule coerceTags_fst)
  show "length (filter (\<lambda>e. e = (ErrorLevel, ''Elements can only be strings if they are of type array''))
             (logs (snd (coerceTags X vs s))))
     = length (filter (\<lambda>e. e = (ErrorLevel, ''Elements can only be strings if they are of type array''))
             (logs s))
       + length (filter (\<lambda>v. \<not> isScalar v) vs)"
    by (rule coerceTags_reports)
  show "fst (listedReferences X repoName tagList s) = concat (map (referenceOf X repoName) tagList)"
    by (rule listedReferences_fst)
  show "length (concat (map (referenceOf X repoName) tagList))
     = length (filter (validTag X repoName) tagList)"
    by (rule length_referenceOf)
next
  assume ne: "filter isScalar vs \<noteq> []"
  let ?repoName = "''//'' @ path_Join [registryName, imageName]"
  let ?s1 = "(logf InfoLevel ''Processing repo'' s)
      \<lparr>heap := (heap (logf InfoLevel ''Processing repo'' s))
          [a := overrideContext cfg (heap (logf InfoLevel ''Processing repo'' s) ! a)]\<rparr>"
  obtain tagList s2 where c: "coerceTags X vs ?s1 = (tagList, s2)"
    by (cases "coerceTags X vs ?s1")
  obtain refs s3 where l: "listedReferences X ?repoName tagList s2 = (refs, s3)"
    by (cases "listedReferences X ?repoName tagList s2")
  from c coerceTags_fst [of X vs ?s1] have t: "tagList = map (fmt_v X) (filter isScalar vs)" by simp
  from l listedReferences_fst [of X ?repoName tagList s2]
  have r: "refs = concat (map (referenceOf X ?repoName) tagList)" by simp
  from ne t have tne: "tagList \<noteq> []" by simp
  have "fst (registryImage X registryName cfg a (imageName, InterfaceSlice vs) s) =
      Returns (if refs = [] then None
               else Some \<lparr>DirBasePath = [], TaggedImages = refs, Context = a\<rparr>)"
    using c l tne by (simp add: registryImage_def Let_def appendDescriptor_def)
  then show "fst (registryImage X registryName cfg a (imageName, InterfaceSlice vs) s) =
          Returns
            (let refs = concat (map (referenceOf X (''//'' @ path_Join [registryName, imageName]))
                                  (map (fmt_v X) (filter isScalar vs)))
             in if refs = [] then None
                else Some \<lparr>DirBasePath = [], TaggedImages = refs, Context = a\<rparr>)"
    by (simp add: r t Let_def)
next
  assume "filter isScalar vs' = []"
  then show "fst (registryImage X registryName cfg a (imageName, InterfaceSlice vs') s)
          = fst (registryImage X registryName cfg a (imageName, NilTags) s)"
    by (rule registryImage_no_scalar)
qed

theorem explicit_tag_list_witness:
  "fst (coerceTags (exampleExternals [''v1'', ''v2''] File [])
          [IntValue 12, OtherValue, StringValue ''a b'', IntValue 305, StringValue ''latest'']
          (exampleState []))
     = [''12'', ''a b'', ''305'', ''latest'']
   \<and> fst (registryImage (exampleExternals [''v1'', ''v2''] File []) ''registry.example.com''
          (exampleRegistry []) 0
          (''repo'', InterfaceSlice
             [IntValue 12, OtherValue, StringValue ''a b'', IntValue 305, StringValue ''latest''])
          (exampleState []))
     = Returns (Some \<lparr>DirBasePath = [],
          TaggedImages = [DockerReference ''registry.example.com/repo:12'',
                          DockerReference ''registry.example.com/repo:305'',
                          DockerReference ''registry.example.com/repo:latest''],
          Context = 0\<rparr>)
   \<and> fst (registryImage (exampleExternals [''v1'', ''v2''] File []) ''registry.example.com''
          (exampleRegistry []) 0 (''repo'', InterfaceSlice [OtherValue]) (exampleState []))
     = Returns (Some \<lparr>DirBasePath = [],
          TaggedImages = [DockerReference ''registry.example.com/repo:v1'',
                          DockerReference ''registry.example.com/repo:v2''],
          Context = 0\<rparr>)"
proof -
  let ?X = "exampleExternals [''v1'', ''v2''] File []"
  let ?vs = "[IntValue 12, OtherValue, StringValue ''a b'', IntValue 305, StringValue ''latest'']"
  let ?st = "exampleState []"
  let ?cfg = "exampleRegistry []"
  note T = explicit_tag_list [where X = ?X and vs = ?vs and s = ?st
      and repoName = "''//registry.example.com/repo''" and tagList = "[''12'', ''a b'', ''305'', ''latest'']"
      and registryName = "''registry.example.com''" and cfg = ?cfg and a = 0
      and imageName = "''repo''" and vs' = "[OtherValue]"]
  have ne: "filter isScalar ?vs \<noteq> []" by simp
  have no: "filter isScalar [OtherValue] = []" by simp
  note c1 = T [THEN conjunct1]
  note c5 = T [THEN conjunct2, THEN conjunct2, THEN conjunct2, THEN conjunct2, THEN conjunct1,
      THEN mp, OF ne]
  note c6 = T [THEN conjunct2, THEN conjunct2, THEN conjunct2, THEN conjunct2, THEN conjunct2,
      THEN mp, OF no]
  have e1: "map (fmt_v ?X) (filter isScalar ?vs) = [''12'', ''a b'', ''305'', ''latest'']"
    by code_simp
  have e5: "(let refs = concat (map (referenceOf ?X (''//'' @ path_Join [''registry.example.com'', ''repo'']))
                                  (map (fmt_v ?X) (filter isScalar ?vs)))
             in if refs = [] then None
                else Some \<lparr>DirBasePath = [], TaggedImages = refs, Context = 0\<rparr>)
      = Some \<lparr>DirBasePath = [],
          TaggedImages = [DockerReference ''registry.example.com/repo:12'',
                          DockerReference ''registry.example.com/repo:305'',
                          DockerReference ''registry.example.com/repo:latest''],
          Context = 0\<rparr>"
    by code_simp
  have e6: "fst (registryImage ?X ''registry.example.com'' ?cfg 0 (''repo'', NilTags) ?st)
     = Returns (Some \<lparr>DirBasePath = [],
          TaggedImages = [DockerReference ''registry.example.com/repo:v1'',
                          DockerReference ''registry.example.com/repo:v2''],
          Context = 0\<rparr>)"
    by code_simp
  have w1: "fst (coerceTags ?X ?vs ?st) = [''12'', ''a b'', ''305'', ''latest'']"
    by (simp only: c1 e1)
  have w2: "fst (registryImage ?X ''registry.example.com'' ?cfg 0 (''repo'', InterfaceSlice ?vs) ?st)
     = Returns (Some \<lparr>DirBasePath = [],
          TaggedImages = [DockerReference ''registry.example.com/repo:12'',
                          DockerReference ''registry.example.com/repo:305'',
                          DockerReference ''registry.example.com/repo:latest''],
          Context = 0\<rparr>)"
    by (simp only: c5 e5)
  have w3: "fst (registryImage ?X ''registry.example.com'' ?cfg 0
                  (''repo'', InterfaceSlice [OtherValue]) ?st)
     = Returns (Some \<lparr>DirBasePath = [],
          TaggedImages = [DockerReference ''registry.example.com/repo:v1'',
                          DockerReference ''registry.example.com/repo:v2''],
          Context = 0\<rparr>)"
    by (simp only: c6 e6)
  from w1 w2 w3 show ?thesis by (intro conjI)
qed

text \<open>
  The claim as first stated fails for the empty list, which holds scalar values only
  and no valid entry: the tags of the repository are listed and two references are
  planned.
\<close>

theorem explicit_empty_list_counterexample:
  "fst (registryImage (exampleExternals [''v1'', ''v2''] File []) ''registry.example.com''
          (exampleRegistry [(''repo'', InterfaceSlice [])]) 0
          (''repo'', InterfaceSlice []) (exampleState []))
     = Returns (Some \<lparr>DirBasePath = [],
          TaggedImages = [DockerReference ''registry.example.com/repo:v1'',
                          DockerReference ''registry.example.com/repo:v2''],
          Context = 0\<rparr>)
   \<and> length [DockerReference ''registry.example.com/repo:v1'',
              DockerReference ''registry.example.com/repo:v2'']
       \<noteq> length (filter isScalar [])"
proof (intro conjI)
  show "fst (registryImage (exampleExternals [''v1'', ''v2''] File []) ''registry.example.com''
          (exampleRegistry [(''repo'', InterfaceSlice [])]) 0
          (''repo'', InterfaceSlice []) (exampleState []))
     = Returns (Some \<lparr>DirBasePath = [],
          TaggedImages = [DockerReference ''registry.example.com/repo:v1'',
                          DockerReference ''registry.example.com/repo:v2''],
          Context = 0\<rparr>)"
    by code_simp
  show "length [DockerReference ''registry.example.com/repo:v1'',
              DockerReference ''registry.example.com/repo:v2'']
       \<noteq> length (filter isScalar [])"
    by simp
qed

end
